theory Spec2Isabelle
  imports Complex_Main
begin

section \<open>JSON values and Python dictionaries\<close>

text \<open>
  The values \<^verbatim>\<open>json.load\<close> returns: \<^verbatim>\<open>None\<close>, \<^verbatim>\<open>bool\<close>, \<^verbatim>\<open>int\<close>, \<^verbatim>\<open>float\<close>,
  \<^verbatim>\<open>str\<close>, \<^verbatim>\<open>list\<close> and \<^verbatim>\<open>dict\<close> with string keys. A float is the real number it
  denotes; the non-finite floats (\<^verbatim>\<open>NaN\<close>, \<^verbatim>\<open>Infinity\<close>), which are not JSON, are not
  values of this type. A \<^verbatim>\<open>dict\<close> is an association list in insertion order.
\<close>

datatype json =
    JNull
  | JBool bool
  | JInt int
  | JFloat real
  | JStr string
  | JArr "json list"
  | JObj "(string \<times> json) list"

type_synonym pydict = "(string \<times> json) list"

text \<open>\<^verbatim>\<open>d.get(k)\<close>\<close>

definition dict_get :: "pydict \<Rightarrow> string \<Rightarrow> json option" where
  "dict_get d k = map_of d k"

text \<open>\<^verbatim>\<open>k in d\<close>\<close>

definition dict_contains :: "pydict \<Rightarrow> string \<Rightarrow> bool" where
  "dict_contains d k = (k \<in> set (map fst d))"

text \<open>\<^verbatim>\<open>d[k] = v\<close>: an existing key keeps its position, a new key goes last.\<close>

fun dict_set :: "pydict \<Rightarrow> string \<Rightarrow> json \<Rightarrow> pydict" where
  "dict_set [] k v = [(k, v)]"
| "dict_set ((k', v') # d) k v =
     (if k' = k then (k, v) # d else (k', v') # dict_set d k v)"

text \<open>\<^verbatim>\<open>d.pop(k, None)\<close>, the popped value dropped.\<close>

fun dict_pop :: "pydict \<Rightarrow> string \<Rightarrow> pydict" where
  "dict_pop [] k = []"
| "dict_pop ((k', v') # d) k = (if k' = k then dict_pop d k else (k', v') # dict_pop d k)"

text \<open>\<^verbatim>\<open>sub in s\<close> on two strings: \<open>sub\<close> occurs in \<open>s\<close> as a contiguous run.\<close>

fun str_contains :: "string \<Rightarrow> string \<Rightarrow> bool" where
  "str_contains [] sub = (sub = [])"
| "str_contains (c # cs) sub = (take (length sub) (c # cs) = sub \<or> str_contains cs sub)"

datatype py_error = TypeError

text \<open>
  \<^verbatim>\<open>sub in x\<close> for a string \<open>sub\<close> and any value \<open>x\<close>: substring test on a string,
  membership on a list, key membership on a dict, \<^verbatim>\<open>TypeError\<close> on the rest.
\<close>

fun py_in :: "string \<Rightarrow> json \<Rightarrow> py_error + bool" where
  "py_in sub (JStr s) = Inr (str_contains s sub)"
| "py_in sub (JArr xs) = Inr (JStr sub \<in> set xs)"
| "py_in sub (JObj d) = Inr (dict_contains d sub)"
| "py_in sub _ = Inl TypeError"

section \<open>The schema projector (scripts/generate\_schemas.py)\<close>

definition post_process_schema :: "pydict \<Rightarrow> string \<Rightarrow> py_error + pydict" where
  "post_process_schema schema schema_id =
     (let schema = dict_set schema ''$schema'' (JStr ''https://json-schema.org/draft/2020-12/schema'');
          schema = dict_set schema ''$id'' (JStr schema_id);
          keys_to_remove = [''additionalProperties''];
          schema = foldl dict_pop schema keys_to_remove
      in if dict_contains schema ''properties'' then
           (case py_in ''ResearchProduct''
                   (case dict_get schema ''title'' of None \<Rightarrow> JStr [] | Some t \<Rightarrow> t) of
              Inl e \<Rightarrow> Inl e
            | Inr True \<Rightarrow> Inr (dict_set schema ''additionalProperties'' (JBool False))
            | Inr False \<Rightarrow> Inr schema)
         else Inr schema)"

text \<open>
  The file system \<^verbatim>\<open>generate_schema\<close> writes to: the directories that exist and the
  content of each file. A path is its list of components.
\<close>

type_synonym path = "string list"

record fs =
  dirs :: "path set"
  files :: "path \<rightharpoonup> string"

text \<open>\<^verbatim>\<open>p.mkdir(parents=True, exist_ok=True)\<close>: \<open>p\<close> and each of its ancestors exist afterwards.\<close>

definition mkdir_parents :: "path \<Rightarrow> fs \<Rightarrow> fs" where
  "mkdir_parents p st = st\<lparr>dirs := dirs st \<union> set (map (\<lambda>n. take n p) [0..<Suc (length p)])\<rparr>"

text \<open>
  \<^verbatim>\<open>generate_schema\<close>. The schema \<^verbatim>\<open>model_class.model_json_schema(...)\<close> returns is the
  argument \<open>raw\<close>, and \<open>dump\<close> is \<^verbatim>\<open>json.dump(_, indent=2, ensure_ascii=False)\<close>; both belong
  to the libraries. The progress line is not modelled.
\<close>

definition generate_schema ::
  "(pydict \<Rightarrow> string) \<Rightarrow> pydict \<Rightarrow> path \<Rightarrow> string \<Rightarrow> fs \<Rightarrow> py_error + fs" where
  "generate_schema dump raw output_path schema_id st =
     (case post_process_schema raw schema_id of
        Inl e \<Rightarrow> Inl e
      | Inr schema \<Rightarrow>
          (let st = mkdir_parents (butlast output_path) st
           in Inr (st\<lparr>files := (files st)(output_path \<mapsto> dump schema @ [CHR 0x0A])\<rparr>)))"

section \<open>The model definition layer\<close>

text \<open>
  A Pydantic model class is data: its name, its \<^verbatim>\<open>model_config\<close> and its fields in
  declaration order. A field has its Python name, its alias, its default (or none, for
  \<^verbatim>\<open>...\<close>) and its annotation with the constraints \<^verbatim>\<open>Field(...)\<close> adds to it.
\<close>

text \<open>
  The one form of \<^verbatim>\<open>pattern\<close> the models below use: \<^verbatim>\<open>^[...]+$\<close>, a non-empty
  string of characters of one class, the whole string (the engine's \<^verbatim>\<open>$\<close> matches at
  the end of the text only).
\<close>

datatype charclass = CRange char char | CChar char

datatype pattern = Anchored_plus "charclass list"

fun in_class :: "char \<Rightarrow> charclass \<Rightarrow> bool" where
  "in_class c (CRange lo hi) =
     ((of_char lo :: nat) \<le> of_char c \<and> (of_char c :: nat) \<le> of_char hi)"
| "in_class c (CChar d) = (c = d)"

fun pattern_match :: "pattern \<Rightarrow> string \<Rightarrow> bool" where
  "pattern_match (Anchored_plus cls) s =
     (s \<noteq> [] \<and> list_all (\<lambda>c. list_ex (in_class c) cls) s)"

text \<open>\<^verbatim>\<open>ge\<close>, \<^verbatim>\<open>gt\<close>, \<^verbatim>\<open>le\<close>, \<^verbatim>\<open>lt\<close> of \<^verbatim>\<open>Field\<close>.\<close>

datatype bound = Ge real | Gt real | Le real | Lt real

text \<open>
  \<^verbatim>\<open>ConfigDict\<close>: \<^verbatim>\<open>populate_by_name\<close> and \<^verbatim>\<open>extra\<close>. (\<^verbatim>\<open>json_schema_extra\<close> is read by
  the schema generator only.)
\<close>

datatype extra_policy = Extra_ignore | Extra_forbid | Extra_allow

record config =
  populate_by_name :: bool
  extra :: extra_policy

datatype fdefault = Required | Default json

datatype ftype =
    TAny
  | TStr "pattern option"
  | TFloat "bound list"
  | TInt "bound list"
  | TBool
  | TUrl
  | TLiteral "string list"
  | TList ftype "nat option" "nat option"
  | TDict ftype
  | TOptional ftype
  | TUnion "ftype list"
  | TModel string config "fdecl list"
and fdecl = Field_decl string "string option" fdefault ftype

fun field_name :: "fdecl \<Rightarrow> string" where
  "field_name (Field_decl name alias dflt t) = name"

fun field_alias :: "fdecl \<Rightarrow> string option" where
  "field_alias (Field_decl name alias dflt t) = alias"

fun class_name :: "ftype \<Rightarrow> string" where
  "class_name (TModel nm cfg fs) = nm"
| "class_name _ = []"

fun class_config :: "ftype \<Rightarrow> config" where
  "class_config (TModel nm cfg fs) = cfg"
| "class_config _ = \<lparr>populate_by_name = False, extra = Extra_ignore\<rparr>"

fun class_fields :: "ftype \<Rightarrow> fdecl list" where
  "class_fields (TModel nm cfg fs) = fs"
| "class_fields _ = []"

text \<open>
  The fields of a subclass: those of the base class in their order, each replaced by the
  subclass's declaration of the same name if there is one, then the subclass's new fields.
\<close>

definition inherit :: "fdecl list \<Rightarrow> fdecl list \<Rightarrow> fdecl list" where
  "inherit base own =
     map (\<lambda>f. case find (\<lambda>g. field_name g = field_name f) own of Some g \<Rightarrow> g | None \<Rightarrow> f) base
     @ filter (\<lambda>g. field_name g \<notin> set (map field_name base)) own"

section \<open>Instance validation\<close>

text \<open>
  \<^verbatim>\<open>Model.model_validate(data)\<close> on the data \<^verbatim>\<open>json.load\<close> returned, as Pydantic runs
  it by default: the lax mode, unknown keys ignored unless the model's \<^verbatim>\<open>extra\<close> says
  otherwise, every error collected. The result is the list of errors, each the location of
  the value and the kind of error; the empty list is success. Inside a union the location
  is given without the segment that names the member of the union. A union accepts what
  one of its members accepts; which member's value the library then keeps is not modelled,
  the driver using the verdict only.

  What the library does with a string where a number, a boolean or a URL is declared is a
  parameter: the conversion of a string to a (finite) float, to an int and to a bool, and
  the test that a string is an \<^verbatim>\<open>http\<close> or \<^verbatim>\<open>https\<close> URL.
\<close>

record lib =
  str_as_float :: "string \<Rightarrow> real option"
  str_as_int :: "string \<Rightarrow> int option"
  str_as_bool :: "string \<Rightarrow> bool option"
  http_url :: "string \<Rightarrow> bool"

datatype loc_seg = Key string | Idx nat

datatype err_kind =
    missing | extra_forbidden | model_type
  | string_type | string_pattern_mismatch
  | float_type | float_parsing
  | int_type | int_parsing | int_from_float | int_parsing_size
  | bool_type | bool_parsing
  | literal_error
  | url_type | url_parsing
  | list_type | too_short | too_long
  | dict_type
  | greater_than_equal | greater_than | less_than_equal | less_than

type_synonym verr = "loc_seg list \<times> err_kind"

definition at_loc :: "loc_seg \<Rightarrow> verr list \<Rightarrow> verr list" where
  "at_loc s es = map (\<lambda>(l, k). (s # l, k)) es"

text \<open>
  Lax conversion to float: a float, an int that rounds to a finite float (any below
  \<^verbatim>\<open>2**1024 - 2**970\<close> in magnitude), a bool, or a string that parses. The int itself
  stands for the float it rounds to: rounding keeps its order with the bounds the models
  declare.
\<close>

fun to_float :: "lib \<Rightarrow> json \<Rightarrow> err_kind + real" where
  "to_float L (JFloat x) = Inr x"
| "to_float L (JInt n) =
     (if \<bar>n\<bar> < 2 ^ 1024 - 2 ^ 970 then Inr (real_of_int n) else Inl float_type)"
| "to_float L (JBool b) = Inr (if b then 1 else 0)"
| "to_float L (JStr s) = (case str_as_float L s of Some x \<Rightarrow> Inr x | None \<Rightarrow> Inl float_parsing)"
| "to_float L _ = Inl float_type"

text \<open>
  Lax conversion to int: an int, a bool, a float without fractional part and strictly
  between \<^verbatim>\<open>-2**63\<close> and \<^verbatim>\<open>2**63\<close>, or a string that parses.
\<close>

fun to_int :: "lib \<Rightarrow> json \<Rightarrow> err_kind + int" where
  "to_int L (JInt n) = Inr n"
| "to_int L (JBool b) = Inr (if b then 1 else 0)"
| "to_int L (JFloat x) =
     (if x \<noteq> real_of_int \<lfloor>x\<rfloor> then Inl int_from_float
      else if - (2 ^ 63) < x \<and> x < 2 ^ 63 then Inr \<lfloor>x\<rfloor>
      else Inl int_parsing_size)"
| "to_int L (JStr s) = (case str_as_int L s of Some n \<Rightarrow> Inr n | None \<Rightarrow> Inl int_parsing)"
| "to_int L _ = Inl int_type"

text \<open>Lax conversion to bool: a bool, the numbers 0 and 1, or a string that parses.\<close>

fun to_bool :: "lib \<Rightarrow> json \<Rightarrow> err_kind + bool" where
  "to_bool L (JBool b) = Inr b"
| "to_bool L (JInt n) = (if n = 0 then Inr False else if n = 1 then Inr True else Inl bool_parsing)"
| "to_bool L (JFloat x) = (if x = 0 then Inr False else if x = 1 then Inr True else Inl bool_parsing)"
| "to_bool L (JStr s) = (case str_as_bool L s of Some b \<Rightarrow> Inr b | None \<Rightarrow> Inl bool_parsing)"
| "to_bool L _ = Inl bool_type"

fun bound_ok :: "real \<Rightarrow> bound \<Rightarrow> bool" where
  "bound_ok x (Ge b) = (b \<le> x)"
| "bound_ok x (Gt b) = (b < x)"
| "bound_ok x (Le b) = (x \<le> b)"
| "bound_ok x (Lt b) = (x < b)"

fun bound_error :: "bound \<Rightarrow> err_kind" where
  "bound_error (Ge b) = greater_than_equal"
| "bound_error (Gt b) = greater_than"
| "bound_error (Le b) = less_than_equal"
| "bound_error (Lt b) = less_than"

text \<open>The first bound the number breaks is the error.\<close>

definition check_bounds :: "bound list \<Rightarrow> real \<Rightarrow> verr list" where
  "check_bounds bs x =
     (case filter (\<lambda>b. \<not> bound_ok x b) bs of [] \<Rightarrow> [] | b # _ \<Rightarrow> [([], bound_error b)])"

definition check_length :: "nat option \<Rightarrow> nat option \<Rightarrow> nat \<Rightarrow> verr list" where
  "check_length min_length max_length n =
     (if (case max_length of None \<Rightarrow> False | Some m \<Rightarrow> m < n) then [([], too_long)]
      else if (case min_length of None \<Rightarrow> False | Some m \<Rightarrow> n < m) then [([], too_short)]
      else [])"

text \<open>
  The key a field is read from: its alias if the document has it, else (when
  \<^verbatim>\<open>populate_by_name\<close> is set) its Python name; a field without alias is read from its name.
\<close>

fun lookup_key :: "config \<Rightarrow> string \<Rightarrow> string option \<Rightarrow> pydict \<Rightarrow> (string \<times> json) option" where
  "lookup_key cfg name None d = map_option (Pair name) (dict_get d name)"
| "lookup_key cfg name (Some alias) d =
     (case dict_get d alias of
        Some v \<Rightarrow> Some (alias, v)
      | None \<Rightarrow> if populate_by_name cfg then map_option (Pair name) (dict_get d name) else None)"

text \<open>The keys that some field of the model can be read from.\<close>

definition field_keys :: "config \<Rightarrow> fdecl \<Rightarrow> string list" where
  "field_keys cfg f =
     (case field_alias f of
        None \<Rightarrow> [field_name f]
      | Some a \<Rightarrow> if populate_by_name cfg then [a, field_name f] else [a])"

definition known_keys :: "config \<Rightarrow> fdecl list \<Rightarrow> string list" where
  "known_keys cfg fs = concat (map (field_keys cfg) fs)"

definition extra_errors :: "config \<Rightarrow> fdecl list \<Rightarrow> pydict \<Rightarrow> verr list" where
  "extra_errors cfg fs d =
     (if extra cfg = Extra_forbid
      then map (\<lambda>k. ([Key k], extra_forbidden)) (filter (\<lambda>k. k \<notin> set (known_keys cfg fs)) (map fst d))
      else [])"

fun validate :: "lib \<Rightarrow> ftype \<Rightarrow> json \<Rightarrow> verr list"
and validate_field :: "lib \<Rightarrow> config \<Rightarrow> fdecl \<Rightarrow> pydict \<Rightarrow> verr list" where
  "validate L TAny j = []"
| "validate L (TStr p) j =
     (case j of
        JStr s \<Rightarrow>
          (case p of
             None \<Rightarrow> []
           | Some pat \<Rightarrow> if pattern_match pat s then [] else [([], string_pattern_mismatch)])
      | _ \<Rightarrow> [([], string_type)])"
| "validate L (TFloat bs) j =
     (case to_float L j of Inl e \<Rightarrow> [([], e)] | Inr x \<Rightarrow> check_bounds bs x)"
| "validate L (TInt bs) j =
     (case to_int L j of Inl e \<Rightarrow> [([], e)] | Inr n \<Rightarrow> check_bounds bs (real_of_int n))"
| "validate L TBool j = (case to_bool L j of Inl e \<Rightarrow> [([], e)] | Inr b \<Rightarrow> [])"
| "validate L TUrl j =
     (case j of
        JStr s \<Rightarrow> if http_url L s then [] else [([], url_parsing)]
      | _ \<Rightarrow> [([], url_type)])"
| "validate L (TLiteral vs) j =
     (case j of
        JStr s \<Rightarrow> if s \<in> set vs then [] else [([], literal_error)]
      | _ \<Rightarrow> [([], literal_error)])"
| "validate L (TList t min_length max_length) j =
     (case j of
        JArr xs \<Rightarrow>
          (let es = concat (map (\<lambda>(i, x). at_loc (Idx i) (validate L t x)) (zip [0..<length xs] xs));
               ls = check_length min_length max_length (length xs)
           in if ls = [([], too_long)] then ls else if es = [] then ls else es)
      | _ \<Rightarrow> [([], list_type)])"
| "validate L (TDict t) j =
     (case j of
        JObj d \<Rightarrow> concat (map (\<lambda>(k, v). at_loc (Key k) (validate L t v)) d)
      | _ \<Rightarrow> [([], dict_type)])"
| "validate L (TOptional t) j = (case j of JNull \<Rightarrow> [] | _ \<Rightarrow> validate L t j)"
| "validate L (TUnion ts) j =
     (let ess = map (\<lambda>t. validate L t j) ts
      in if [] \<in> set ess then [] else concat ess)"
| "validate L (TModel nm cfg fs) j =
     (case j of
        JObj d \<Rightarrow> concat (map (\<lambda>f. validate_field L cfg f d) fs) @ extra_errors cfg fs d
      | _ \<Rightarrow> [([], model_type)])"
| "validate_field L cfg (Field_decl name alias dflt t) d =
     (case lookup_key cfg name alias d of
        Some (k, v) \<Rightarrow> at_loc (Key k) (validate L t v)
      | None \<Rightarrow>
          (case dflt of
             Required \<Rightarrow> [([Key (case alias of None \<Rightarrow> name | Some a \<Rightarrow> a)], missing)]
           | Default _ \<Rightarrow> []))"

text \<open>\<^verbatim>\<open>model_validate\<close> raises \<^verbatim>\<open>ValidationError\<close> with the errors, or returns.\<close>

datatype py_exception = ValidationError "verr list" | LoadError

definition model_validate :: "lib \<Rightarrow> ftype \<Rightarrow> json \<Rightarrow> py_exception + unit" where
  "model_validate L cls data =
     (case validate L cls data of [] \<Rightarrow> Inr () | e # es \<Rightarrow> Inl (ValidationError (e # es)))"

section \<open>The models (src/rap\_spec)\<close>

text \<open>
  The classes of the package, field by field, module by module; those of
  \<^verbatim>\<open>models/api_descriptor.py\<close>, whose patterns are of another form and which nothing
  below is about, are left out. No class sets \<^verbatim>\<open>extra\<close>, so each has Pydantic's default,
  \<^verbatim>\<open>ignore\<close>. Two class names occur in two modules; those four constants carry their
  module's name.
\<close>

subsection \<open>models/common.py\<close>

definition Unit :: ftype where
  "Unit =
   TModel ''Unit''
     \<lparr>populate_by_name = True, extra = Extra_ignore\<rparr>
     [Field_decl ''type_'' (Some ''@type'') (Default (JStr ''Unit'')) (TLiteral [''Unit'']),
      Field_decl ''symbol'' None Required (TStr None),
      Field_decl ''label'' None (Default JNull) (TOptional (TStr None)),
      Field_decl ''uri'' None (Default JNull) (TOptional TUrl)]"

definition QuantityValue :: ftype where
  "QuantityValue =
   TModel ''QuantityValue''
     \<lparr>populate_by_name = True, extra = Extra_ignore\<rparr>
     [Field_decl ''type_'' (Some ''@type'') (Default (JStr ''QuantityValue''))
        (TLiteral [''QuantityValue'']),
      Field_decl ''value'' None Required (TFloat [Ge 0]),
      Field_decl ''unit'' None Required (TStr None)]"

definition SoftwareApplication :: ftype where
  "SoftwareApplication =
   TModel ''SoftwareApplication''
     \<lparr>populate_by_name = True, extra = Extra_ignore\<rparr>
     [Field_decl ''type_'' (Some ''@type'') (Default (JStr ''SoftwareApplication''))
        (TLiteral [''SoftwareApplication'']),
      Field_decl ''name'' None Required (TStr None),
      Field_decl ''version'' None (Default JNull) (TOptional (TStr None)),
      Field_decl ''url'' None (Default JNull) (TOptional TUrl)]"

definition ProcessingStep :: ftype where
  "ProcessingStep =
   TModel ''ProcessingStep''
     \<lparr>populate_by_name = True, extra = Extra_ignore\<rparr>
     [Field_decl ''type_'' (Some ''@type'') (Default (JStr ''ProcessingStep''))
        (TLiteral [''ProcessingStep'']),
      Field_decl ''step_order'' (Some ''stepOrder'') Required (TInt [Ge 1]),
      Field_decl ''name'' None Required (TStr None),
      Field_decl ''software_agent'' (Some ''softwareAgent'') (Default JNull)
        (TOptional SoftwareApplication),
      Field_decl ''parameters'' None (Default JNull) (TOptional (TDict TAny))]"

definition ProcessingProvenance :: ftype where
  "ProcessingProvenance =
   TModel ''ProcessingProvenance''
     \<lparr>populate_by_name = True, extra = Extra_ignore\<rparr>
     [Field_decl ''type_'' (Some ''@type'') (Default (JStr ''ProcessingProvenance''))
        (TLiteral [''ProcessingProvenance'']),
      Field_decl ''was_derived_from'' (Some ''wasDerivedFrom'') Required (TDict TAny),
      Field_decl ''processing_steps'' (Some ''processingSteps'') Required
        (TList ProcessingStep None None)]"

definition ComputeEnvironment :: ftype where
  "ComputeEnvironment =
   TModel ''ComputeEnvironment''
     \<lparr>populate_by_name = True, extra = Extra_ignore\<rparr>
     [Field_decl ''type_'' (Some ''@type'') (Default (JStr ''ComputeEnvironment''))
        (TLiteral [''ComputeEnvironment'']),
      Field_decl ''container_image'' (Some ''containerImage'') (Default JNull)
        (TOptional (TDict TAny))]"

definition CreativeWork :: ftype where
  "CreativeWork =
   TModel ''CreativeWork''
     \<lparr>populate_by_name = True, extra = Extra_ignore\<rparr>
     [Field_decl ''type_'' (Some ''@type'') (Default (JStr ''CreativeWork''))
        (TLiteral [''CreativeWork'']),
      Field_decl ''id_'' (Some ''@id'') Required TUrl,
      Field_decl ''name'' None (Default JNull) (TOptional (TStr None))]"

definition DataDownload :: ftype where
  "DataDownload =
   TModel ''DataDownload''
     \<lparr>populate_by_name = True, extra = Extra_ignore\<rparr>
     [Field_decl ''type_'' (Some ''@type'') (Default (JStr ''DataDownload''))
        (TLiteral [''DataDownload'']),
      Field_decl ''content_url'' (Some ''contentUrl'') Required TUrl,
      Field_decl ''encoding_format'' (Some ''encodingFormat'') (Default JNull)
        (TOptional (TStr None)),
      Field_decl ''content_size'' (Some ''contentSize'') (Default JNull) (TOptional (TStr None))]"

definition PropertyValue :: ftype where
  "PropertyValue =
   TModel ''PropertyValue''
     \<lparr>populate_by_name = True, extra = Extra_ignore\<rparr>
     [Field_decl ''type_'' (Some ''@type'') (Default (JStr ''PropertyValue''))
        (TLiteral [''PropertyValue'']),
      Field_decl ''property_id'' (Some ''propertyID'') Required (TStr None),
      Field_decl ''value'' None Required (TStr None)]"

definition ScholarlyArticle :: ftype where
  "ScholarlyArticle =
   TModel ''ScholarlyArticle''
     \<lparr>populate_by_name = True, extra = Extra_ignore\<rparr>
     [Field_decl ''type_'' (Some ''@type'') (Default (JStr ''ScholarlyArticle''))
        (TLiteral [''ScholarlyArticle'']),
      Field_decl ''identifier'' None (Default JNull) (TOptional (TDict TAny)),
      Field_decl ''name'' None (Default JNull) (TOptional (TStr None))]"

subsection \<open>data\_types/vector\_data.py\<close>

definition vector_data_Statistics :: ftype where
  "vector_data_Statistics =
   TModel ''Statistics''
     \<lparr>populate_by_name = True, extra = Extra_ignore\<rparr>
     [Field_decl ''mean'' None (Default JNull) (TOptional (TFloat [])),
      Field_decl ''median'' None (Default JNull) (TOptional (TFloat [])),
      Field_decl ''std'' None (Default JNull) (TOptional (TFloat [])),
      Field_decl ''min'' None (Default JNull) (TOptional (TFloat [])),
      Field_decl ''max'' None (Default JNull) (TOptional (TFloat [])),
      Field_decl ''count'' None (Default JNull) (TOptional (TInt []))]"

definition VectorData :: ftype where
  "VectorData =
   TModel ''VectorData''
     \<lparr>populate_by_name = True, extra = Extra_ignore\<rparr>
     [Field_decl ''type_'' (Some ''@type'') (Default (JStr ''VectorData''))
        (TLiteral [''VectorData'']),
      Field_decl ''values'' None Required (TList (TFloat []) (Some 1) None),
      Field_decl ''unit'' None Required (TUnion [Unit, TUrl]),
      Field_decl ''length'' None (Default JNull) (TOptional (TInt [Ge 1])),
      Field_decl ''labels'' None (Default JNull) (TOptional (TList (TStr None) None None)),
      Field_decl ''statistics'' None (Default JNull) (TOptional vector_data_Statistics),
      Field_decl ''metadata'' None (Default JNull) (TOptional (TDict TAny))]"

subsection \<open>measurements/base.py\<close>

definition BaseMeasurement :: ftype where
  "BaseMeasurement =
   TModel ''BaseMeasurement''
     \<lparr>populate_by_name = True, extra = Extra_ignore\<rparr>
     [Field_decl ''type_'' (Some ''@type'') (Default (JStr ''Measurement''))
        (TLiteral [''Measurement'']),
      Field_decl ''measurement_type'' (Some ''measurementType'') Required (TStr None),
      Field_decl ''specific_measure'' (Some ''specificMeasure'') Required (TStr None),
      Field_decl ''session'' None (Default JNull) (TOptional (TStr None)),
      Field_decl ''unit'' None (Default JNull) (TOptional (TUnion [Unit, TUrl])),
      Field_decl ''quantity_kind'' (Some ''quantityKind'') (Default JNull) (TOptional TUrl)]"

subsection \<open>measurements/relaxometry\_mri.py\<close>

definition SpatialResolution :: ftype where
  "SpatialResolution =
   TModel ''SpatialResolution''
     \<lparr>populate_by_name = True, extra = Extra_ignore\<rparr>
     [Field_decl ''value'' None Required (TFloat [Ge 0]),
      Field_decl ''unit'' None Required Unit]"

definition FieldStrength :: ftype where
  "FieldStrength =
   TModel ''FieldStrength''
     \<lparr>populate_by_name = True, extra = Extra_ignore\<rparr>
     [Field_decl ''value'' None Required (TFloat [Ge 0]),
      Field_decl ''unit'' None Required Unit]"

definition AcquisitionParameters :: ftype where
  "AcquisitionParameters =
   TModel ''AcquisitionParameters''
     \<lparr>populate_by_name = True, extra = Extra_ignore\<rparr>
     [Field_decl ''field_strength'' (Some ''fieldStrength'') (Default JNull)
        (TOptional FieldStrength),
      Field_decl ''scanner'' None (Default JNull) (TOptional (TStr None)),
      Field_decl ''sequence'' None (Default JNull) (TOptional (TStr None)),
      Field_decl ''TR'' None (Default JNull) (TOptional (TFloat [Ge 0])),
      Field_decl ''TE'' None (Default JNull)
        (TOptional (TUnion [TFloat [], TList (TFloat []) None None])),
      Field_decl ''TI'' None (Default JNull)
        (TOptional (TUnion [TFloat [], TList (TFloat []) None None])),
      Field_decl ''flip_angle'' (Some ''flipAngle'') (Default JNull)
        (TOptional (TFloat [Ge 0, Le 180]))]"

definition RelaxometryMRIMeasurement :: ftype where
  "RelaxometryMRIMeasurement =
   TModel ''RelaxometryMRIMeasurement''
     \<lparr>populate_by_name = True, extra = Extra_ignore\<rparr>
     (inherit (class_fields BaseMeasurement)
     [Field_decl ''measurement_type'' (Some ''measurementType'') (Default (JStr ''relaxometry_mri''))
        (TLiteral [''relaxometry_mri'']),
      Field_decl ''specific_measure'' (Some ''specificMeasure'') Required (TStr None),
      Field_decl ''anatomical_region'' (Some ''anatomicalRegion'') (Default JNull)
        (TOptional (TStr None)),
      Field_decl ''region_type'' (Some ''regionType'') (Default JNull)
        (TOptional (TLiteral [''tissue_class'', ''anatomical_roi'', ''functional_roi'', ''voxel_wise''])),
      Field_decl ''vector_length'' (Some ''vectorLength'') (Default JNull)
        (TOptional (TInt [Ge 1])),
      Field_decl ''spatial_resolution'' (Some ''spatialResolution'') (Default JNull)
        (TOptional SpatialResolution),
      Field_decl ''coordinate_system'' (Some ''coordinateSystem'') (Default JNull)
        (TOptional (TStr None)),
      Field_decl ''acquisition_parameters'' (Some ''acquisitionParameters'') (Default JNull)
        (TOptional AcquisitionParameters)])"

subsection \<open>measurements/timeseries.py\<close>

definition TimeDimension :: ftype where
  "TimeDimension =
   TModel ''TimeDimension''
     \<lparr>populate_by_name = True, extra = Extra_ignore\<rparr>
     [Field_decl ''length'' None Required (TInt [Ge 1]),
      Field_decl ''start'' None (Default JNull) (TOptional (TFloat [])),
      Field_decl ''end'' None (Default JNull) (TOptional (TFloat []))]"

definition Dimensions :: ftype where
  "Dimensions =
   TModel ''Dimensions''
     \<lparr>populate_by_name = True, extra = Extra_ignore\<rparr>
     [Field_decl ''time'' None (Default JNull) (TOptional TimeDimension)]"

definition SamplingRate :: ftype where
  "SamplingRate =
   TModel ''SamplingRate''
     \<lparr>populate_by_name = True, extra = Extra_ignore\<rparr>
     [Field_decl ''value'' None Required (TFloat [Gt 0]),
      Field_decl ''unit'' None Required Unit]"

definition Duration :: ftype where
  "Duration =
   TModel ''Duration''
     \<lparr>populate_by_name = True, extra = Extra_ignore\<rparr>
     [Field_decl ''value'' None Required (TFloat [Ge 0]),
      Field_decl ''unit'' None Required Unit]"

definition Channels :: ftype where
  "Channels =
   TModel ''Channels''
     \<lparr>populate_by_name = True, extra = Extra_ignore\<rparr>
     [Field_decl ''count'' None Required (TInt [Ge 1]),
      Field_decl ''type_'' (Some ''type'') (Default JNull) (TOptional (TStr None)),
      Field_decl ''labels'' None (Default JNull) (TOptional (TList (TStr None) None None))]"

definition TimeseriesMeasurement :: ftype where
  "TimeseriesMeasurement =
   TModel ''TimeseriesMeasurement''
     \<lparr>populate_by_name = True, extra = Extra_ignore\<rparr>
     (inherit (class_fields BaseMeasurement)
     [Field_decl ''measurement_type'' (Some ''measurementType'') (Default (JStr ''timeseries''))
        (TLiteral [''timeseries'']),
      Field_decl ''specific_measure'' (Some ''specificMeasure'') Required (TStr None),
      Field_decl ''dimensions'' None (Default JNull) (TOptional Dimensions),
      Field_decl ''sampling_rate'' (Some ''samplingRate'') (Default JNull)
        (TOptional SamplingRate),
      Field_decl ''duration'' None (Default JNull) (TOptional Duration),
      Field_decl ''channels'' None (Default JNull) (TOptional Channels)])"

subsection \<open>models/research\_product.py\<close>

definition research_product_DemographicData :: ftype where
  "research_product_DemographicData =
   TModel ''DemographicData''
     \<lparr>populate_by_name = True, extra = Extra_ignore\<rparr>
     [Field_decl ''age'' None (Default JNull) (TOptional (TDict TAny)),
      Field_decl ''sex'' None (Default JNull)
        (TOptional (TLiteral [''M'', ''F'', ''other'', ''unknown''])),
      Field_decl ''group'' None (Default JNull) (TOptional (TStr None))]"

definition ParticipantReference :: ftype where
  "ParticipantReference =
   TModel ''ParticipantReference''
     \<lparr>populate_by_name = True, extra = Extra_ignore\<rparr>
     [Field_decl ''type_'' (Some ''@type'') (Default (JStr ''Participant''))
        (TLiteral [''Participant'']),
      Field_decl ''id_'' (Some ''@id'') Required TUrl,
      Field_decl ''identifier'' None Required (TStr None),
      Field_decl ''demographic_data'' (Some ''demographicData'') (Default JNull)
        (TOptional research_product_DemographicData)]"

definition ResearchProduct :: ftype where
  "ResearchProduct =
   TModel ''ResearchProduct''
     \<lparr>populate_by_name = True, extra = Extra_ignore\<rparr>
     [Field_decl ''context'' (Some ''@context'') Required
        (TUnion [TLiteral [''https://rap-spec.evidencepub.io/v1/context''], TDict TAny]),
      Field_decl ''type_'' (Some ''@type'') (Default (JStr ''ResearchProduct''))
        (TLiteral [''ResearchProduct'']),
      Field_decl ''id_'' (Some ''@id'') Required TUrl,
      Field_decl ''identifier'' None (Default JNull) (TOptional PropertyValue),
      Field_decl ''product_type'' (Some ''productType'') Required
        (TLiteral [''processed_timeseries'', ''processed_scalar'', ''processed_image'',
           ''processed_spatial'', ''processed_categorical'', ''processed_vector'']),
      Field_decl ''processing_level'' (Some ''processingLevel'') Required
        (TLiteral [''raw'', ''preprocessed'', ''analysis_ready'', ''aggregated'']),
      Field_decl ''data'' None (Default JNull) (TOptional VectorData),
      Field_decl ''participant'' None Required ParticipantReference,
      Field_decl ''measurement'' None Required
        (TUnion [RelaxometryMRIMeasurement, TimeseriesMeasurement]),
      Field_decl ''provenance'' None (Default JNull) (TOptional ProcessingProvenance),
      Field_decl ''compute_environment'' (Some ''computeEnvironment'') (Default JNull)
        (TOptional ComputeEnvironment),
      Field_decl ''license'' None (Default JNull) (TOptional CreativeWork),
      Field_decl ''distribution'' None (Default JNull) (TOptional DataDownload),
      Field_decl ''citation'' None (Default JNull) (TOptional ScholarlyArticle),
      Field_decl ''quality_metrics'' (Some ''qualityMetrics'') (Default JNull)
        (TOptional (TDict TAny))]"

subsection \<open>models/participant.py\<close>

definition Age :: ftype where
  "Age =
   TModel ''Age''
     \<lparr>populate_by_name = True, extra = Extra_ignore\<rparr>
     [Field_decl ''type_'' (Some ''@type'') (Default (JStr ''QuantityValue''))
        (TLiteral [''QuantityValue'']),
      Field_decl ''value'' None Required (TFloat [Ge 0]),
      Field_decl ''unit'' None (Default (JStr ''YR'')) (TStr None)]"

definition participant_DemographicData :: ftype where
  "participant_DemographicData =
   TModel ''DemographicData''
     \<lparr>populate_by_name = True, extra = Extra_ignore\<rparr>
     [Field_decl ''age'' None (Default JNull) (TOptional Age),
      Field_decl ''sex'' None (Default JNull)
        (TOptional (TLiteral [''M'', ''F'', ''other'', ''unknown''])),
      Field_decl ''gender'' None (Default JNull) (TOptional (TStr None)),
      Field_decl ''group'' None (Default JNull) (TOptional (TStr None)),
      Field_decl ''ethnicity'' None (Default JNull) (TOptional (TStr None)),
      Field_decl ''handedness'' None (Default JNull)
        (TOptional (TLiteral [''left'', ''right'', ''ambidextrous'', ''unknown''])),
      Field_decl ''species'' None (Default (JStr ''human'')) (TOptional (TStr None)),
      Field_decl ''strain'' None (Default JNull) (TOptional (TStr None)),
      Field_decl ''genetic_modification'' (Some ''geneticModification'') (Default JNull)
        (TOptional (TStr None))]"

definition Medication :: ftype where
  "Medication =
   TModel ''Medication''
     \<lparr>populate_by_name = True, extra = Extra_ignore\<rparr>
     [Field_decl ''name'' None (Default JNull) (TOptional (TStr None)),
      Field_decl ''dosage'' None (Default JNull) (TOptional (TStr None)),
      Field_decl ''duration'' None (Default JNull) (TOptional (TStr None))]"

definition Assessment :: ftype where
  "Assessment =
   TModel ''Assessment''
     \<lparr>populate_by_name = True, extra = Extra_ignore\<rparr>
     [Field_decl ''name'' None (Default JNull) (TOptional (TStr None)),
      Field_decl ''score'' None (Default JNull) (TOptional (TFloat [])),
      Field_decl ''date'' None (Default JNull) (TOptional (TStr None))]"

definition ClinicalData :: ftype where
  "ClinicalData =
   TModel ''ClinicalData''
     \<lparr>populate_by_name = True, extra = Extra_ignore\<rparr>
     [Field_decl ''diagnosis'' None (Default JNull) (TOptional (TList (TStr None) None None)),
      Field_decl ''medication_history'' (Some ''medicationHistory'') (Default JNull)
        (TOptional (TList Medication None None)),
      Field_decl ''assessments'' None (Default JNull) (TOptional (TList Assessment None None))]"

definition ProductsAvailable :: ftype where
  "ProductsAvailable =
   TModel ''ProductsAvailable''
     \<lparr>populate_by_name = True, extra = Extra_ignore\<rparr>
     [Field_decl ''count'' None (Default JNull) (TOptional (TInt [Ge 0])),
      Field_decl ''measures'' None (Default JNull) (TOptional (TList (TStr None) None None)),
      Field_decl ''sessions'' None (Default JNull) (TOptional (TList (TStr None) None None)),
      Field_decl ''by_measure'' (Some ''byMeasure'') (Default JNull) (TOptional (TDict (TInt []))),
      Field_decl ''by_session'' (Some ''bySession'') (Default JNull) (TOptional (TDict (TInt [])))]"

definition SessionDuration :: ftype where
  "SessionDuration =
   TModel ''SessionDuration''
     \<lparr>populate_by_name = True, extra = Extra_ignore\<rparr>
     [Field_decl ''value'' None (Default JNull) (TOptional (TFloat [])),
      Field_decl ''unit'' None (Default (JStr ''MIN'')) (TStr None)]"

definition Environment :: ftype where
  "Environment =
   TModel ''Environment''
     \<lparr>populate_by_name = True, extra = Extra_ignore\<rparr>
     [Field_decl ''temperature'' None (Default JNull) (TOptional (TFloat [])),
      Field_decl ''lighting'' None (Default JNull) (TOptional (TStr None)),
      Field_decl ''noise_level'' (Some ''noiseLevel'') (Default JNull) (TOptional (TStr None))]"

definition SessionMetadata :: ftype where
  "SessionMetadata =
   TModel ''SessionMetadata''
     \<lparr>populate_by_name = True, extra = Extra_ignore\<rparr>
     [Field_decl ''session'' None (Default JNull) (TOptional (TStr None)),
      Field_decl ''date'' None (Default JNull) (TOptional (TStr None)),
      Field_decl ''duration'' None (Default JNull) (TOptional SessionDuration),
      Field_decl ''notes'' None (Default JNull) (TOptional (TStr None)),
      Field_decl ''experimenter'' None (Default JNull) (TOptional (TStr None)),
      Field_decl ''environment'' None (Default JNull) (TOptional Environment)]"

definition Links :: ftype where
  "Links =
   TModel ''Links''
     \<lparr>populate_by_name = True, extra = Extra_ignore\<rparr>
     [Field_decl ''products'' None (Default JNull) (TOptional TUrl),
      Field_decl ''measures'' None (Default JNull) (TOptional TUrl),
      Field_decl ''sessions'' None (Default JNull) (TOptional TUrl)]"

definition Consent :: ftype where
  "Consent =
   TModel ''Consent''
     \<lparr>populate_by_name = True, extra = Extra_ignore\<rparr>
     [Field_decl ''consent_date'' (Some ''consentDate'') (Default JNull) (TOptional (TStr None)),
      Field_decl ''consent_version'' (Some ''consentVersion'') (Default JNull)
        (TOptional (TStr None)),
      Field_decl ''data_sharing'' (Some ''dataSharing'') (Default JNull)
        (TOptional (TLiteral [''public'', ''restricted'', ''private''])),
      Field_decl ''restrictions'' None (Default JNull) (TOptional (TList (TStr None) None None))]"

definition Participant :: ftype where
  "Participant =
   TModel ''Participant''
     \<lparr>populate_by_name = True, extra = Extra_ignore\<rparr>
     [Field_decl ''context'' (Some ''@context'') Required
        (TUnion [TLiteral [''https://rap-spec.evidencepub.io/v1/context''], TDict TAny]),
      Field_decl ''type_'' (Some ''@type'') (Default (JStr ''Participant''))
        (TLiteral [''Participant'']),
      Field_decl ''id_'' (Some ''@id'') Required TUrl,
      Field_decl ''identifier'' None Required
        (TStr (Some (Anchored_plus [CRange CHR ''A'' CHR ''Z'', CRange CHR ''a'' CHR ''z'',
           CRange CHR ''0'' CHR ''9'', CChar CHR ''_'', CChar CHR ''-'']))),
      Field_decl ''demographic_data'' (Some ''demographicData'') (Default JNull)
        (TOptional participant_DemographicData),
      Field_decl ''enrollment_date'' (Some ''enrollmentDate'') (Default JNull)
        (TOptional (TStr None)),
      Field_decl ''status'' None (Default JNull)
        (TOptional (TLiteral [''active'', ''completed'', ''withdrawn'', ''excluded''])),
      Field_decl ''exclusion_reason'' (Some ''exclusionReason'') (Default JNull)
        (TOptional (TStr None)),
      Field_decl ''clinical_data'' (Some ''clinicalData'') (Default JNull)
        (TOptional ClinicalData),
      Field_decl ''products_available'' (Some ''productsAvailable'') (Default JNull)
        (TOptional ProductsAvailable),
      Field_decl ''session_metadata'' (Some ''sessionMetadata'') (Default JNull)
        (TOptional (TList SessionMetadata None None)),
      Field_decl ''links'' None (Default JNull) (TOptional Links),
      Field_decl ''consent'' None (Default JNull) (TOptional Consent),
      Field_decl ''privacy_level'' (Some ''privacyLevel'') (Default (JStr ''pseudonymous''))
        (TOptional (TLiteral [''anonymous'', ''pseudonymous'', ''identifiable'']))]"

subsection \<open>models/aggregate.py\<close>

definition AggregateFilters :: ftype where
  "AggregateFilters =
   TModel ''AggregateFilters''
     \<lparr>populate_by_name = True, extra = Extra_ignore\<rparr>
     [Field_decl ''participant'' None (Default JNull)
        (TOptional (TUnion [TStr None, TList (TStr None) None None])),
      Field_decl ''session'' None (Default JNull)
        (TOptional (TUnion [TStr None, TList (TStr None) None None])),
      Field_decl ''group'' None (Default JNull) (TOptional (TStr None)),
      Field_decl ''age_range'' (Some ''ageRange'') (Default JNull) (TOptional (TDict (TFloat [])))]"

definition MeanValue :: ftype where
  "MeanValue =
   TModel ''MeanValue''
     \<lparr>populate_by_name = True, extra = Extra_ignore\<rparr>
     [Field_decl ''value'' None Required (TFloat []),
      Field_decl ''units'' None (Default JNull) (TOptional (TStr None))]"

definition QuantileValues :: ftype where
  "QuantileValues =
   TModel ''QuantileValues''
     \<lparr>populate_by_name = True, extra = Extra_ignore\<rparr>
     [Field_decl ''q25'' None (Default JNull) (TOptional (TFloat [])),
      Field_decl ''q50'' None (Default JNull) (TOptional (TFloat [])),
      Field_decl ''q75'' None (Default JNull) (TOptional (TFloat []))]"

definition ConfidenceInterval :: ftype where
  "ConfidenceInterval =
   TModel ''ConfidenceInterval''
     \<lparr>populate_by_name = True, extra = Extra_ignore\<rparr>
     [Field_decl ''level'' None Required (TFloat [Ge 0, Le 1]),
      Field_decl ''lower'' None Required (TFloat []),
      Field_decl ''upper'' None Required (TFloat [])]"

definition aggregate_Statistics :: ftype where
  "aggregate_Statistics =
   TModel ''Statistics''
     \<lparr>populate_by_name = True, extra = Extra_ignore\<rparr>
     [Field_decl ''mean'' None (Default JNull) (TOptional (TUnion [TFloat [], MeanValue])),
      Field_decl ''median'' None (Default JNull) (TOptional (TFloat [])),
      Field_decl ''std'' None (Default JNull) (TOptional (TFloat [])),
      Field_decl ''sem'' None (Default JNull) (TOptional (TFloat [])),
      Field_decl ''variance'' None (Default JNull) (TOptional (TFloat [])),
      Field_decl ''min'' None (Default JNull) (TOptional (TFloat [])),
      Field_decl ''max'' None (Default JNull) (TOptional (TFloat [])),
      Field_decl ''range'' None (Default JNull) (TOptional (TList (TFloat []) (Some 2) (Some 2))),
      Field_decl ''quantiles'' None (Default JNull) (TOptional QuantileValues),
      Field_decl ''confidence_interval'' (Some ''confidenceInterval'') (Default JNull)
        (TOptional ConfidenceInterval)]"

definition Histogram :: ftype where
  "Histogram =
   TModel ''Histogram''
     \<lparr>populate_by_name = True, extra = Extra_ignore\<rparr>
     [Field_decl ''bins'' None (Default JNull) (TOptional (TList (TFloat []) None None)),
      Field_decl ''counts'' None (Default JNull) (TOptional (TList (TInt []) None None))]"

definition KDE :: ftype where
  "KDE =
   TModel ''KDE''
     \<lparr>populate_by_name = True, extra = Extra_ignore\<rparr>
     [Field_decl ''x'' None (Default JNull) (TOptional (TList (TFloat []) None None)),
      Field_decl ''y'' None (Default JNull) (TOptional (TList (TFloat []) None None))]"

definition Distribution :: ftype where
  "Distribution =
   TModel ''Distribution''
     \<lparr>populate_by_name = True, extra = Extra_ignore\<rparr>
     [Field_decl ''histogram'' None (Default JNull) (TOptional Histogram),
      Field_decl ''kde'' None (Default JNull) (TOptional KDE)]"

definition AggregateLinks :: ftype where
  "AggregateLinks =
   TModel ''AggregateLinks''
     \<lparr>populate_by_name = True, extra = Extra_ignore\<rparr>
     [Field_decl ''products'' None (Default JNull) (TOptional TUrl),
      Field_decl ''raw_data'' (Some ''rawData'') (Default JNull) (TOptional TUrl)]"

definition AggregateGroup :: ftype where
  "AggregateGroup =
   TModel ''AggregateGroup''
     \<lparr>populate_by_name = True, extra = Extra_ignore\<rparr>
     [Field_decl ''participant'' None (Default JNull) (TOptional (TStr None)),
      Field_decl ''session'' None (Default JNull) (TOptional (TStr None)),
      Field_decl ''group'' None (Default JNull) (TOptional (TStr None)),
      Field_decl ''participant_count'' (Some ''participantCount'') (Default JNull)
        (TOptional (TInt [Ge 0])),
      Field_decl ''product_count'' (Some ''productCount'') (Default JNull)
        (TOptional (TInt [Ge 0])),
      Field_decl ''statistics'' None Required aggregate_Statistics,
      Field_decl ''distribution'' None (Default JNull) (TOptional Distribution),
      Field_decl ''links'' None (Default JNull) (TOptional AggregateLinks)]"

definition ComparisonGroup :: ftype where
  "ComparisonGroup =
   TModel ''ComparisonGroup''
     \<lparr>populate_by_name = True, extra = Extra_ignore\<rparr>
     [Field_decl ''name'' None (Default JNull) (TOptional (TStr None)),
      Field_decl ''participant_count'' (Some ''participantCount'') (Default JNull)
        (TOptional (TInt [])),
      Field_decl ''statistics'' None (Default JNull) (TOptional (TDict (TFloat [])))]"

definition EffectSize :: ftype where
  "EffectSize =
   TModel ''EffectSize''
     \<lparr>populate_by_name = True, extra = Extra_ignore\<rparr>
     [Field_decl ''measure'' None Required
        (TLiteral [''cohensD'', ''hedgesG'', ''glassD'', ''eta-squared'', ''omega-squared'']),
      Field_decl ''value'' None Required (TFloat [])]"

definition StatisticalTest :: ftype where
  "StatisticalTest =
   TModel ''StatisticalTest''
     \<lparr>populate_by_name = True, extra = Extra_ignore\<rparr>
     [Field_decl ''method'' None Required
        (TLiteral [''t-test'', ''anova'', ''mann-whitney'', ''kruskal-wallis'', ''chi-square'']),
      Field_decl ''statistic'' None Required (TFloat []),
      Field_decl ''p_value'' (Some ''pValue'') Required (TFloat [Ge 0, Le 1]),
      Field_decl ''significant'' None (Default JNull) (TOptional TBool),
      Field_decl ''alpha'' None (Default (JFloat 0.05)) (TOptional (TFloat [])),
      Field_decl ''effect_size'' (Some ''effectSize'') (Default JNull) (TOptional EffectSize),
      Field_decl ''degrees_of_freedom'' (Some ''degreesOfFreedom'') (Default JNull)
        (TOptional (TUnion [TFloat [], TList (TFloat []) None None]))]"

definition PostHocComparison :: ftype where
  "PostHocComparison =
   TModel ''PostHocComparison''
     \<lparr>populate_by_name = True, extra = Extra_ignore\<rparr>
     [Field_decl ''group1'' None (Default JNull) (TOptional (TStr None)),
      Field_decl ''group2'' None (Default JNull) (TOptional (TStr None)),
      Field_decl ''p_value'' (Some ''pValue'') (Default JNull) (TOptional (TFloat [])),
      Field_decl ''adjusted'' None (Default JNull) (TOptional TBool),
      Field_decl ''adjustment_method'' (Some ''adjustmentMethod'') (Default JNull)
        (TOptional (TLiteral [''bonferroni'', ''holm'', ''fdr_bh'', ''fdr_by'']))]"

definition Comparison :: ftype where
  "Comparison =
   TModel ''Comparison''
     \<lparr>populate_by_name = True, extra = Extra_ignore\<rparr>
     [Field_decl ''groups'' None (Default JNull) (TOptional (TList ComparisonGroup None None)),
      Field_decl ''test'' None Required StatisticalTest,
      Field_decl ''post_hoc'' (Some ''postHoc'') (Default JNull)
        (TOptional (TList PostHocComparison None None))]"

definition AggregateMetadata :: ftype where
  "AggregateMetadata =
   TModel ''AggregateMetadata''
     \<lparr>populate_by_name = True, extra = Extra_ignore\<rparr>
     [Field_decl ''computed_at'' (Some ''computedAt'') (Default JNull) (TOptional (TStr None)),
      Field_decl ''software_used'' (Some ''softwareUsed'') (Default JNull)
        (TOptional (TDict (TStr None))),
      Field_decl ''excluded_products'' (Some ''excludedProducts'') (Default JNull)
        (TOptional (TList (TDict (TStr None)) None None))]"

definition AggregateStatistics :: ftype where
  "AggregateStatistics =
   TModel ''AggregateStatistics''
     \<lparr>populate_by_name = True, extra = Extra_ignore\<rparr>
     [Field_decl ''context'' (Some ''@context'') Required
        (TUnion [TLiteral [''https://rap-spec.evidencepub.io/v1/context''], TDict TAny]),
      Field_decl ''type_'' (Some ''@type'') (Default (JStr ''AggregateStatistics''))
        (TLiteral [''AggregateStatistics'']),
      Field_decl ''id_'' (Some ''@id'') Required TUrl,
      Field_decl ''measure'' None Required (TStr None),
      Field_decl ''grouping'' None (Default JNull) (TOptional (TStr None)),
      Field_decl ''filters'' None (Default JNull) (TOptional AggregateFilters),
      Field_decl ''aggregates'' None Required (TList AggregateGroup None None),
      Field_decl ''comparison'' None (Default JNull) (TOptional Comparison),
      Field_decl ''metadata'' None (Default JNull) (TOptional AggregateMetadata)]"

subsection \<open>models/collection.py\<close>

definition AppliedFilters :: ftype where
  "AppliedFilters =
   TModel ''AppliedFilters''
     \<lparr>populate_by_name = True, extra = Extra_ignore\<rparr>
     [Field_decl ''participant'' None (Default JNull)
        (TOptional (TUnion [TStr None, TList (TStr None) None None])),
      Field_decl ''measure'' None (Default JNull)
        (TOptional (TUnion [TStr None, TList (TStr None) None None])),
      Field_decl ''session'' None (Default JNull)
        (TOptional (TUnion [TStr None, TList (TStr None) None None])),
      Field_decl ''group'' None (Default JNull) (TOptional (TStr None)),
      Field_decl ''processing_level'' (Some ''processingLevel'') (Default JNull)
        (TOptional (TLiteral [''raw'', ''preprocessed'', ''analysis_ready'', ''aggregated'']))]"

definition AvailableFilters :: ftype where
  "AvailableFilters =
   TModel ''AvailableFilters''
     \<lparr>populate_by_name = True, extra = Extra_ignore\<rparr>
     [Field_decl ''participant'' None (Default JNull) (TOptional (TList (TStr None) None None)),
      Field_decl ''measure'' None (Default JNull) (TOptional (TList (TStr None) None None)),
      Field_decl ''session'' None (Default JNull) (TOptional (TList (TStr None) None None)),
      Field_decl ''group'' None (Default JNull) (TOptional (TList (TStr None) None None)),
      Field_decl ''processing_level'' (Some ''processingLevel'') (Default JNull)
        (TOptional (TList (TStr None) None None))]"

definition Filter :: ftype where
  "Filter =
   TModel ''Filter''
     \<lparr>populate_by_name = True, extra = Extra_ignore\<rparr>
     [Field_decl ''applied'' None (Default JNull) (TOptional AppliedFilters),
      Field_decl ''available'' None (Default JNull) (TOptional AvailableFilters)]"

definition ProductSummary :: ftype where
  "ProductSummary =
   TModel ''ProductSummary''
     \<lparr>populate_by_name = True, extra = Extra_ignore\<rparr>
     [Field_decl ''type_'' (Some ''@type'') (Default (JStr ''ResearchProduct''))
        (TLiteral [''ResearchProduct'']),
      Field_decl ''id_'' (Some ''@id'') Required TUrl,
      Field_decl ''identifier'' None Required (TStr None),
      Field_decl ''participant'' None (Default JNull) (TOptional (TDict TAny)),
      Field_decl ''measurement'' None (Default JNull) (TOptional (TDict TAny)),
      Field_decl ''summary'' None (Default JNull) (TOptional (TDict TAny)),
      Field_decl ''distribution'' None (Default JNull) (TOptional (TDict TAny))]"

definition PaginationLinks :: ftype where
  "PaginationLinks =
   TModel ''PaginationLinks''
     \<lparr>populate_by_name = True, extra = Extra_ignore\<rparr>
     [Field_decl ''first'' None (Default JNull) (TOptional TUrl),
      Field_decl ''prev'' None (Default JNull) (TOptional TUrl),
      Field_decl ''next'' None (Default JNull) (TOptional TUrl),
      Field_decl ''last'' None (Default JNull) (TOptional TUrl)]"

definition Pagination :: ftype where
  "Pagination =
   TModel ''Pagination''
     \<lparr>populate_by_name = True, extra = Extra_ignore\<rparr>
     [Field_decl ''page'' None (Default JNull) (TOptional (TInt [Ge 1])),
      Field_decl ''page_size'' (Some ''pageSize'') (Default JNull) (TOptional (TInt [Ge 1])),
      Field_decl ''total_pages'' (Some ''totalPages'') (Default JNull) (TOptional (TInt [Ge 1])),
      Field_decl ''links'' None (Default JNull) (TOptional PaginationLinks)]"

definition SortedBy :: ftype where
  "SortedBy =
   TModel ''SortedBy''
     \<lparr>populate_by_name = True, extra = Extra_ignore\<rparr>
     [Field_decl ''field'' None (Default JNull) (TOptional (TStr None)),
      Field_decl ''order'' None (Default JNull) (TOptional (TLiteral [''asc'', ''desc'']))]"

definition ResearchProductCollection :: ftype where
  "ResearchProductCollection =
   TModel ''ResearchProductCollection''
     \<lparr>populate_by_name = True, extra = Extra_ignore\<rparr>
     [Field_decl ''context'' (Some ''@context'') Required
        (TUnion [TLiteral [''https://rap-spec.evidencepub.io/v1/context''], TDict TAny]),
      Field_decl ''type_'' (Some ''@type'') (Default (JStr ''ResearchProductCollection''))
        (TLiteral [''ResearchProductCollection'']),
      Field_decl ''id_'' (Some ''@id'') Required TUrl,
      Field_decl ''total_items'' (Some ''totalItems'') Required (TInt [Ge 0]),
      Field_decl ''filter'' None (Default JNull) (TOptional Filter),
      Field_decl ''member'' None Required
        (TList (TUnion [ResearchProduct, ProductSummary]) None None),
      Field_decl ''pagination'' None (Default JNull) (TOptional Pagination),
      Field_decl ''sorted_by'' (Some ''sortedBy'') (Default JNull) (TOptional SortedBy)]"

section \<open>The validation driver (scripts/validate\_examples.py)\<close>

text \<open>
  \<^verbatim>\<open>validate_research_product\<close>, given what \<^verbatim>\<open>load_json_file\<close> came to (the data, or the
  exception it raised): any exception is caught and the answer is \<^verbatim>\<open>False\<close>. The printed
  lines are not modelled.
\<close>

definition validate_research_product :: "lib \<Rightarrow> py_exception + json \<Rightarrow> bool" where
  "validate_research_product L loaded =
     (case loaded of
        Inl e \<Rightarrow> False
      | Inr data \<Rightarrow>
          (case model_validate L ResearchProduct data of Inl e \<Rightarrow> False | Inr u \<Rightarrow> True))"

section \<open>An instance of the library's conversions, and documents\<close>

text \<open>
  The theorems below hold for every value of the library's conversions. Where a closed
  example needs one, it is this: plain decimal numerals read exactly, the lower-case
  boolean words, and \<^verbatim>\<open>http(s)://\<close> followed by letters, digits and \<^verbatim>\<open>-._~/\<close>. It is
  not the library: the library also reads exponents and rounds long numerals, and it
  refuses some of these hosts. The examples use it on short numerals such as
  \<^verbatim>\<open>1.0\<close> and on \<^verbatim>\<open>example.org\<close> URLs only, where the two agree.
\<close>

definition is_digit :: "char \<Rightarrow> bool" where
  "is_digit c = (48 \<le> (of_char c :: nat) \<and> (of_char c :: nat) \<le> 57)"

definition is_alnum :: "char \<Rightarrow> bool" where
  "is_alnum c =
     (is_digit c \<or> (65 \<le> (of_char c :: nat) \<and> (of_char c :: nat) \<le> 90)
      \<or> (97 \<le> (of_char c :: nat) \<and> (of_char c :: nat) \<le> 122))"

definition digits_value :: "string \<Rightarrow> nat" where
  "digits_value ds = foldl (\<lambda>a c. 10 * a + (of_char c - 48)) 0 ds"

definition decimal_as_int :: "string \<Rightarrow> int option" where
  "decimal_as_int s =
     (let neg = (s \<noteq> [] \<and> hd s = CHR ''-''); body = (if neg then tl s else s)
      in if body \<noteq> [] \<and> list_all is_digit body
         then Some ((if neg then - 1 else 1) * int (digits_value body)) else None)"

definition decimal_as_float :: "string \<Rightarrow> real option" where
  "decimal_as_float s =
     (let neg = (s \<noteq> [] \<and> hd s = CHR ''-''); body = (if neg then tl s else s);
          ip = takeWhile is_digit body; rest = dropWhile is_digit body;
          sgn = (if neg then - 1 else 1)
      in if ip = [] then None
         else (case rest of
                 [] \<Rightarrow> Some (sgn * real (digits_value ip))
               | c # fp \<Rightarrow>
                   if c = CHR ''.'' \<and> fp \<noteq> [] \<and> list_all is_digit fp
                   then Some (sgn * (real (digits_value ip)
                                      + real (digits_value fp) / 10 ^ length fp))
                   else None))"

definition word_as_bool :: "string \<Rightarrow> bool option" where
  "word_as_bool s =
     (if s \<in> set [''0'', ''off'', ''f'', ''false'', ''n'', ''no''] then Some False
      else if s \<in> set [''1'', ''on'', ''t'', ''true'', ''y'', ''yes''] then Some True
      else None)"

definition plain_http_url :: "string \<Rightarrow> bool" where
  "plain_http_url s =
     (let rest = (if take 7 s = ''http://'' then drop 7 s
                  else if take 8 s = ''https://'' then drop 8 s else [])
      in rest \<noteq> [] \<and> is_alnum (hd rest)
         \<and> list_all (\<lambda>c. is_alnum c \<or> c \<in> set ''-._~/'') rest)"

definition plain_lib :: lib where
  "plain_lib = \<lparr>str_as_float = decimal_as_float, str_as_int = decimal_as_int,
                 str_as_bool = word_as_bool, http_url = plain_http_url\<rparr>"

text \<open>
  A ResearchProduct document with the required fields only: a timeseries measurement and a
  participant reference.
\<close>

definition minimal_product :: pydict where
  "minimal_product =
     [(''@context'', JStr ''https://rap-spec.evidencepub.io/v1/context''),
      (''@type'', JStr ''ResearchProduct''),
      (''@id'', JStr ''https://example.org/products/1''),
      (''productType'', JStr ''processed_vector''),
      (''processingLevel'', JStr ''analysis_ready''),
      (''participant'', JObj [(''@id'', JStr ''https://example.org/participants/sub-01''),
                              (''identifier'', JStr ''sub-01'')]),
      (''measurement'', JObj [(''measurementType'', JStr ''timeseries''),
                              (''specificMeasure'', JStr ''eeg'')])]"

text \<open>A Participant document with the required fields only.\<close>

definition minimal_participant :: pydict where
  "minimal_participant =
     [(''@context'', JStr ''https://rap-spec.evidencepub.io/v1/context''),
      (''@type'', JStr ''Participant''),
      (''@id'', JStr ''https://example.org/participants/sub-01''),
      (''identifier'', JStr ''sub-01'')]"

section \<open>Dictionary updates\<close>

lemma dict_get_set: "dict_get (dict_set d k v) k' = (if k' = k then Some v else dict_get d k')"
  by (induction d k v rule: dict_set.induct) (auto simp: dict_get_def)

lemma keys_dict_set: "set (map fst (dict_set d k v)) = insert k (set (map fst d))"
  by (induction d k v rule: dict_set.induct) (simp_all add: insert_commute)

lemma dict_contains_set: "dict_contains (dict_set d k v) k' = (k' = k \<or> dict_contains d k')"
  unfolding dict_contains_def keys_dict_set by simp

lemma dict_get_pop: "dict_get (dict_pop d k) k' = (if k' = k then None else dict_get d k')"
  by (induction d k rule: dict_pop.induct) (auto simp: dict_get_def)

lemma keys_dict_pop: "set (map fst (dict_pop d k)) = set (map fst d) - {k}"
  by (induction d k rule: dict_pop.induct) (simp_all add: insert_Diff_if)

lemma dict_contains_pop: "dict_contains (dict_pop d k) k' = (k' \<noteq> k \<and> dict_contains d k')"
  unfolding dict_contains_def keys_dict_pop by auto

lemma dict_set_same: "dict_get d k = Some v \<Longrightarrow> dict_set d k v = d"
  by (induction d k v rule: dict_set.induct) (simp_all add: dict_get_def split: if_splits)

lemma dict_pop_absent: "\<not> dict_contains d k \<Longrightarrow> dict_pop d k = d"
  by (induction d k rule: dict_pop.induct) (auto simp: dict_contains_def)

lemma dict_pop_set_same: "dict_pop (dict_set d k v) k = dict_pop d k"
  by (induction d k v rule: dict_set.induct) simp_all

section \<open>Validation of lists\<close>

lemmas validate_defs = dict_get_def at_loc_def extra_errors_def check_bounds_def check_length_def

lemma concat_map_Nil: "concat (map f xs) = [] \<longleftrightarrow> (\<forall>x \<in> set xs. f x = [])"
  by (induction xs) auto

lemma at_loc_Nil: "at_loc s es = [] \<longleftrightarrow> es = []"
  by (simp add: at_loc_def)

lemma snd_zip_upt: "snd ` set (zip [0..<length xs] xs) = set xs"
proof -
  have "map snd (zip [0..<length xs] xs) = xs"
    by (simp add: map_snd_zip)
  then have "set (map snd (zip [0..<length xs] xs)) = set xs"
    by (rule arg_cong)
  then show ?thesis
    by (simp only: set_map)
qed

text \<open>A list is valid when each item is and its length is within the declared limits.\<close>

lemma validate_list:
  "validate L (TList t mn mx) (JArr xs) = [] \<longleftrightarrow>
     (\<forall>x \<in> set xs. validate L t x = []) \<and> check_length mn mx (length xs) = []"
proof -
  have "(\<forall>p \<in> set (zip [0..<length xs] xs). validate L t (snd p) = [])
        \<longleftrightarrow> (\<forall>x \<in> snd ` set (zip [0..<length xs] xs). validate L t x = [])"
    by blast
  then have e: "(\<forall>p \<in> set (zip [0..<length xs] xs). validate L t (snd p) = [])
        \<longleftrightarrow> (\<forall>x \<in> set xs. validate L t x = [])"
    by (simp only: snd_zip_upt)
  have "concat (map (\<lambda>(i, x). at_loc (Idx i) (validate L t x)) (zip [0..<length xs] xs)) = []
        \<longleftrightarrow> (\<forall>p \<in> set (zip [0..<length xs] xs). validate L t (snd p) = [])"
    by (simp add: concat_map_Nil split_beta at_loc_Nil)
  with e show ?thesis
    by (auto simp: Let_def)
qed

section \<open>Validation of models\<close>

text \<open>The errors of a field depend on the document through the keys of the field only.\<close>

lemma lookup_key_cong:
  assumes "\<forall>k \<in> set (field_keys cfg (Field_decl n al dflt t)). dict_get d k = dict_get d' k"
  shows "lookup_key cfg n al d = lookup_key cfg n al d'"
proof (cases al)
  case None
  with assms show ?thesis
    by (simp add: field_keys_def)
next
  case (Some a)
  with assms show ?thesis
    by (cases "populate_by_name cfg") (auto simp: field_keys_def split: option.splits)
qed

lemma validate_field_cong:
  assumes "\<forall>k \<in> set (field_keys cfg f). dict_get d k = dict_get d' k"
  shows "validate_field L cfg f d = validate_field L cfg f d'"
proof (cases f)
  case (Field_decl n al dflt t)
  with assms have "lookup_key cfg n al d = lookup_key cfg n al d'"
    by (intro lookup_key_cong) simp
  with Field_decl show ?thesis
    by simp
qed

lemma validate_model_cong:
  assumes "\<forall>k \<in> set (known_keys cfg fs). dict_get d k = dict_get d' k"
    and "extra cfg \<noteq> Extra_forbid"
  shows "validate L (TModel nm cfg fs) (JObj d) = validate L (TModel nm cfg fs) (JObj d')"
proof -
  have "validate_field L cfg f d = validate_field L cfg f d'" if "f \<in> set fs" for f
    using that assms(1) by (intro validate_field_cong) (auto simp: known_keys_def)
  then have "concat (map (\<lambda>f. validate_field L cfg f d) fs)
           = concat (map (\<lambda>f. validate_field L cfg f d') fs)"
    by (intro arg_cong [where f = concat] map_cong refl)
  then show ?thesis
    using assms(2) by (simp add: extra_errors_def)
qed

text \<open>With unknown keys ignored, a model is valid when each of its fields is.\<close>

lemma validate_model_Nil:
  assumes "extra cfg \<noteq> Extra_forbid"
  shows "validate L (TModel nm cfg fs) (JObj d) = [] \<longleftrightarrow>
         (\<forall>f \<in> set fs. validate_field L cfg f d = [])"
  using assms by (simp add: extra_errors_def concat_map_Nil)

lemma validate_model_field_error:
  assumes "f \<in> set fs" and "validate_field L cfg f d \<noteq> []"
  shows "validate L (TModel nm cfg fs) (JObj d) \<noteq> []"
  using assms by (auto simp: concat_map_Nil)

lemma validate_union2:
  "validate L (TUnion [A, B]) j = [] \<longleftrightarrow> validate L A j = [] \<or> validate L B j = []"
  by (auto simp: Let_def)

lemma model_unfold:
  "class_name t \<noteq> [] \<Longrightarrow> t = TModel (class_name t) (class_config t) (class_fields t)"
  by (cases t) simp_all

text \<open>Setting a key that no field is read from changes nothing.\<close>

lemma unknown_key_ignored:
  assumes "class_name t \<noteq> []" and "extra (class_config t) \<noteq> Extra_forbid"
    and "k \<notin> set (known_keys (class_config t) (class_fields t))"
  shows "validate L t (JObj (dict_set d k v)) = validate L t (JObj d)"
proof -
  have "\<forall>k' \<in> set (known_keys (class_config t) (class_fields t)).
          dict_get (dict_set d k v) k' = dict_get d k'"
    using assms(3) by (auto simp: dict_get_set)
  from validate_model_cong [OF this assms(2)] model_unfold [OF assms(1)]
  show ?thesis
    by metis
qed

text \<open>
  With \<^verbatim>\<open>populate_by_name\<close>, a value under the Python name of a field is read as the
  same value under its alias, when the document has no such alias.
\<close>

lemma alias_or_name:
  assumes pbn: "populate_by_name cfg" and ex: "extra cfg \<noteq> Extra_forbid"
    and f: "f = Field_decl n (Some a) dflt t" and mem: "f \<in> set fs"
    and others: "\<forall>g \<in> set fs. g = f \<or> (a \<notin> set (field_keys cfg g) \<and> n \<notin> set (field_keys cfg g))"
    and absent: "dict_get d a = None"
  shows "validate L (TModel nm cfg fs) (JObj (dict_set d n v)) = [] \<longleftrightarrow>
         validate L (TModel nm cfg fs) (JObj (dict_set d a v)) = []"
proof -
  have same: "validate_field L cfg g (dict_set d n v) = validate_field L cfg g (dict_set d a v)"
    if "g \<in> set fs" "g \<noteq> f" for g
  proof (rule validate_field_cong, rule ballI)
    fix k assume "k \<in> set (field_keys cfg g)"
    with others that have "k \<noteq> a" "k \<noteq> n"
      by auto
    then show "dict_get (dict_set d n v) k = dict_get (dict_set d a v) k"
      by (simp add: dict_get_set)
  qed
  have own: "validate_field L cfg f (dict_set d n v) = [] \<longleftrightarrow>
             validate_field L cfg f (dict_set d a v) = []"
    using pbn absent by (simp add: f dict_get_set at_loc_Nil)
  show ?thesis
    unfolding validate_model_Nil [OF ex]
    using same own by metis
qed

section \<open>The schema projector: the closed-object policy and regeneration\<close>

lemma post_process_schema_unfold:
  "post_process_schema raw sid =
     (let b = dict_pop (dict_set (dict_set raw ''$schema''
                  (JStr ''https://json-schema.org/draft/2020-12/schema''))
                 ''$id'' (JStr sid)) ''additionalProperties''
      in if dict_contains b ''properties'' then
           (case py_in ''ResearchProduct''
                   (case dict_get b ''title'' of None \<Rightarrow> JStr [] | Some t \<Rightarrow> t) of
              Inl e \<Rightarrow> Inl e
            | Inr True \<Rightarrow> Inr (dict_set b ''additionalProperties'' (JBool False))
            | Inr False \<Rightarrow> Inr b)
         else Inr b)"
  unfolding post_process_schema_def Let_def foldl_Cons foldl_Nil by (rule refl)

text \<open>With a string for title (or none), post-processing raises nothing.\<close>

lemma post_process_schema_returns:
  assumes "dict_get raw ''title'' = None \<or> (\<exists>t. dict_get raw ''title'' = Some (JStr t))"
  shows "\<exists>s. post_process_schema raw sid = Inr s"
  using assms
  by (auto simp: post_process_schema_unfold Let_def dict_get_pop dict_get_set split: bool.splits)

text \<open>
  A schema whose title contains \<^verbatim>\<open>ResearchProduct\<close> and that has \<^verbatim>\<open>properties\<close> comes out
  closed; any other schema with a string for title comes out without the key.
\<close>

lemma post_process_schema_additionalProperties:
  assumes "dict_get raw ''title'' = Some (JStr t)"
  shows "\<exists>s. post_process_schema raw sid = Inr s \<and>
             dict_get s ''additionalProperties'' =
               (if dict_contains raw ''properties'' \<and> str_contains t ''ResearchProduct''
                then Some (JBool False) else None)"
  using assms
  by (auto simp: post_process_schema_unfold Let_def dict_get_pop dict_get_set
        dict_contains_pop dict_contains_set split: bool.splits)

lemma post_process_schema_idem:
  assumes "post_process_schema raw sid = Inr s"
  shows "post_process_schema s sid = Inr s"
proof -
  define S where "S = JStr ''https://json-schema.org/draft/2020-12/schema''"
  define b where
    "b = dict_pop (dict_set (dict_set raw ''$schema'' S) ''$id'' (JStr sid)) ''additionalProperties''"
  define fin where "fin = (\<lambda>b. if dict_contains b ''properties'' then
           (case py_in ''ResearchProduct''
                   (case dict_get b ''title'' of None \<Rightarrow> JStr [] | Some t \<Rightarrow> t) of
              Inl e \<Rightarrow> Inl e
            | Inr True \<Rightarrow> Inr (dict_set b ''additionalProperties'' (JBool False))
            | Inr False \<Rightarrow> Inr b)
         else Inr b)"
  have pp: "post_process_schema r sid =
      fin (dict_pop (dict_set (dict_set r ''$schema'' S) ''$id'' (JStr sid)) ''additionalProperties'')"
    for r
    unfolding post_process_schema_unfold fin_def S_def Let_def by (rule refl)
  have fb: "fin b = Inr s"
    using assms by (simp add: pp b_def)
  have s_cases: "s = b \<or> s = dict_set b ''additionalProperties'' (JBool False)"
    using fb by (auto simp: fin_def split: if_splits sum.splits bool.splits)
  have nb: "\<not> dict_contains b ''additionalProperties''"
    by (simp add: b_def dict_contains_pop)
  have gb: "dict_get b ''$schema'' = Some S" "dict_get b ''$id'' = Some (JStr sid)"
    by (simp_all add: b_def dict_get_pop dict_get_set)
  have gs: "dict_get s ''$schema'' = Some S" "dict_get s ''$id'' = Some (JStr sid)"
    using s_cases gb by (auto simp: dict_get_set)
  have ps: "dict_pop s ''additionalProperties'' = b"
    using s_cases nb by (auto simp: dict_pop_set_same dict_pop_absent)
  have "dict_pop (dict_set (dict_set s ''$schema'' S) ''$id'' (JStr sid)) ''additionalProperties'' = b"
    by (simp add: dict_set_same gs ps)
  then show ?thesis
    by (simp add: pp fb)
qed

lemma post_process_schema_id:
  assumes "post_process_schema raw sid = Inr s"
  shows "dict_get s ''$id'' = Some (JStr sid) \<and>
         dict_get s ''$schema'' = Some (JStr ''https://json-schema.org/draft/2020-12/schema'')"
  using assms
  by (auto simp: post_process_schema_unfold Let_def dict_get_pop dict_get_set
        split: if_splits sum.splits bool.splits)

text \<open>
  C1. The projector is to close exactly one schema, that of ResearchProduct. The test it
  makes is that the title contains \<^verbatim>\<open>ResearchProduct\<close>, and the title of a model's schema
  is its class name: the schema of ResearchProductCollection comes out with
  \<^verbatim>\<open>additionalProperties: false\<close> as well.
\<close>

theorem post_process_schema_closes_collection:
  assumes "dict_get raw ''title'' = Some (JStr (class_name ResearchProductCollection))"
    and "dict_contains raw ''properties''"
  shows "\<exists>s. post_process_schema raw sid = Inr s \<and>
             dict_get s ''additionalProperties'' = Some (JBool False)"
proof -
  have t: "class_name ResearchProductCollection = ''ResearchProductCollection''"
    by (simp add: ResearchProductCollection_def)
  have c: "str_contains ''ResearchProductCollection'' ''ResearchProduct''"
    by simp
  from post_process_schema_additionalProperties [of raw "''ResearchProductCollection''" sid]
  show ?thesis
    using assms c by (simp add: t)
qed

theorem post_process_schema_closes_collection_witness:
  "dict_get [(''properties'', JObj []), (''title'', JStr ''ResearchProductCollection'')] ''title''
     = Some (JStr (class_name ResearchProductCollection)) \<and>
   dict_contains [(''properties'', JObj []), (''title'', JStr ''ResearchProductCollection'')]
     ''properties'' \<and>
   (\<exists>s. post_process_schema
          [(''properties'', JObj []), (''title'', JStr ''ResearchProductCollection'')]
          ''https://rap-spec.evidencepub.io/v1/schemas/collection.json'' = Inr s \<and>
        dict_get s ''additionalProperties'' = Some (JBool False))"
proof -
  have h1: "dict_get [(''properties'', JObj []), (''title'', JStr ''ResearchProductCollection'')]
      ''title'' = Some (JStr (class_name ResearchProductCollection))"
    by (simp add: dict_get_def ResearchProductCollection_def)
  have h2: "dict_contains
      [(''properties'', JObj []), (''title'', JStr ''ResearchProductCollection'')] ''properties''"
    by (simp add: dict_contains_def)
  show ?thesis
    using h1 h2 post_process_schema_closes_collection [OF h1 h2] by blast
qed

text \<open>
  C9. Regenerating a schema changes nothing: a second run of \<^verbatim>\<open>generate_schema\<close> on the
  same model schema, path and \<^verbatim>\<open>$id\<close> leaves the file system as the first run left it, the
  file holding the dumped schema and a newline; post-processing a schema that is already
  post-processed gives it back, keys in the same order; and its \<^verbatim>\<open>$id\<close> is the one supplied.
\<close>

theorem generate_schema_idempotent:
  assumes "post_process_schema raw sid = Inr s"
  shows "(\<exists>st'. generate_schema dump raw p sid st = Inr st' \<and>
               generate_schema dump raw p sid st' = Inr st' \<and>
               files st' p = Some (dump s @ [CHR 0x0A])) \<and>
         post_process_schema s sid = Inr s \<and>
         dict_get s ''$id'' = Some (JStr sid)"
proof -
  let ?st = "mkdir_parents (butlast p) st"
  let ?st' = "?st\<lparr>files := (files ?st)(p \<mapsto> dump s @ [CHR 0x0A])\<rparr>"
  have 1: "generate_schema dump raw p sid st = Inr ?st'"
    using assms by (simp add: generate_schema_def Let_def)
  have 2: "generate_schema dump raw p sid ?st' = Inr ?st'"
    using assms by (simp add: generate_schema_def Let_def mkdir_parents_def Un_assoc)
  have 3: "files ?st' p = Some (dump s @ [CHR 0x0A])"
    by simp
  from 1 2 3 have "\<exists>st'. generate_schema dump raw p sid st = Inr st' \<and>
               generate_schema dump raw p sid st' = Inr st' \<and>
               files st' p = Some (dump s @ [CHR 0x0A])"
    by blast
  then show ?thesis
    using post_process_schema_idem [OF assms] post_process_schema_id [OF assms] by simp
qed

theorem generate_schema_idempotent_witness:
  "post_process_schema [(''properties'', JObj []), (''title'', JStr ''Participant'')]
     ''https://rap-spec.evidencepub.io/v1/schemas/participant.json''
   = Inr [(''properties'', JObj []), (''title'', JStr ''Participant''),
          (''$schema'', JStr ''https://json-schema.org/draft/2020-12/schema''),
          (''$id'', JStr ''https://rap-spec.evidencepub.io/v1/schemas/participant.json'')] \<and>
   ((\<exists>st'. generate_schema (\<lambda>d. concat (map fst d))
              [(''properties'', JObj []), (''title'', JStr ''Participant'')]
              [''schemas'', ''v1'', ''participant.json'']
              ''https://rap-spec.evidencepub.io/v1/schemas/participant.json''
              \<lparr>dirs = {}, files = Map.empty\<rparr> = Inr st' \<and>
           generate_schema (\<lambda>d. concat (map fst d))
              [(''properties'', JObj []), (''title'', JStr ''Participant'')]
              [''schemas'', ''v1'', ''participant.json'']
              ''https://rap-spec.evidencepub.io/v1/schemas/participant.json'' st' = Inr st' \<and>
           files st' [''schemas'', ''v1'', ''participant.json''] =
             Some ((\<lambda>d. concat (map fst d))
                     [(''properties'', JObj []), (''title'', JStr ''Participant''),
                      (''$schema'', JStr ''https://json-schema.org/draft/2020-12/schema''),
                      (''$id'', JStr ''https://rap-spec.evidencepub.io/v1/schemas/participant.json'')]
                   @ [CHR 0x0A])) \<and>
    post_process_schema
      [(''properties'', JObj []), (''title'', JStr ''Participant''),
       (''$schema'', JStr ''https://json-schema.org/draft/2020-12/schema''),
       (''$id'', JStr ''https://rap-spec.evidencepub.io/v1/schemas/participant.json'')]
      ''https://rap-spec.evidencepub.io/v1/schemas/participant.json''
    = Inr [(''properties'', JObj []), (''title'', JStr ''Participant''),
           (''$schema'', JStr ''https://json-schema.org/draft/2020-12/schema''),
           (''$id'', JStr ''https://rap-spec.evidencepub.io/v1/schemas/participant.json'')] \<and>
    dict_get [(''properties'', JObj []), (''title'', JStr ''Participant''),
              (''$schema'', JStr ''https://json-schema.org/draft/2020-12/schema''),
              (''$id'', JStr ''https://rap-spec.evidencepub.io/v1/schemas/participant.json'')] ''$id''
    = Some (JStr ''https://rap-spec.evidencepub.io/v1/schemas/participant.json''))"
proof -
  have h: "post_process_schema [(''properties'', JObj []), (''title'', JStr ''Participant'')]
     ''https://rap-spec.evidencepub.io/v1/schemas/participant.json''
   = Inr [(''properties'', JObj []), (''title'', JStr ''Participant''),
          (''$schema'', JStr ''https://json-schema.org/draft/2020-12/schema''),
          (''$id'', JStr ''https://rap-spec.evidencepub.io/v1/schemas/participant.json'')]"
    by (simp add: post_process_schema_unfold Let_def dict_contains_def dict_get_def)
  show ?thesis
    by (rule conjI [OF h generate_schema_idempotent [OF h]])
qed

section \<open>Numeric bounds\<close>

lemmas plain_lib_defs = plain_lib_def decimal_as_float_def decimal_as_int_def is_digit_def
  is_alnum_def digits_value_def plain_http_url_def Let_def

lemma validate_ConfidenceInterval_level:
  "validate L ConfidenceInterval
      (JObj [(''level'', JFloat x), (''lower'', JFloat lo), (''upper'', JFloat hi)]) = []
    \<longleftrightarrow> 0 \<le> x \<and> x \<le> 1"
  by (simp add: ConfidenceInterval_def validate_defs)

text \<open>
  C7. The two-sided ranges are inclusive at both ends: a confidence interval is valid
  exactly when its level lies in [0, 1], acquisition parameters exactly when the flip angle
  lies in [0, 180], given as a float or as an integer.
\<close>

theorem numeric_bounds_inclusive:
  "(validate L ConfidenceInterval
      (JObj [(''level'', JFloat x), (''lower'', JFloat lo), (''upper'', JFloat hi)]) = []
    \<longleftrightarrow> 0 \<le> x \<and> x \<le> 1) \<and>
   (validate L AcquisitionParameters (JObj [(''flipAngle'', JFloat a)]) = []
    \<longleftrightarrow> 0 \<le> a \<and> a \<le> 180) \<and>
   (validate L AcquisitionParameters (JObj [(''flipAngle'', JInt n)]) = []
    \<longleftrightarrow> 0 \<le> n \<and> n \<le> 180)"
  by (simp add: ConfidenceInterval_def AcquisitionParameters_def validate_defs)

theorem numeric_bounds_inclusive_witness:
  "validate plain_lib ConfidenceInterval
     (JObj [(''level'', JFloat 1.1), (''lower'', JFloat 2), (''upper'', JFloat 3)]) \<noteq> [] \<and>
   validate plain_lib ConfidenceInterval
     (JObj [(''level'', JFloat 0.95), (''lower'', JFloat 2), (''upper'', JFloat 3)]) = [] \<and>
   validate plain_lib ConfidenceInterval
     (JObj [(''level'', JFloat 1), (''lower'', JFloat 2), (''upper'', JFloat 3)]) = [] \<and>
   validate plain_lib AcquisitionParameters (JObj [(''flipAngle'', JInt 181)]) \<noteq> [] \<and>
   validate plain_lib AcquisitionParameters (JObj [(''flipAngle'', JInt 180)]) = [] \<and>
   validate plain_lib AcquisitionParameters (JObj [(''flipAngle'', JFloat 180)]) = []"
  using numeric_bounds_inclusive [of plain_lib "1.1" 2 3 180 181]
    numeric_bounds_inclusive [of plain_lib "0.95" 2 3 180 180]
    numeric_bounds_inclusive [of plain_lib 1 2 3 180 180]
  by simp

text \<open>The p-value of a statistical test is valid exactly within [0, 1].\<close>

lemma statistical_test_p_value_bounds:
  "validate L StatisticalTest
     (JObj [(''method'', JStr ''t-test''), (''statistic'', JFloat t), (''pValue'', JFloat p)]) = []
   \<longleftrightarrow> 0 \<le> p \<and> p \<le> 1"
  by (simp add: StatisticalTest_def validate_defs)

text \<open>
  C8. Every p-value is to be rejected outside [0, 1]. The p-value of a post-hoc comparison
  has no bound: a comparison with any number for \<^verbatim>\<open>pValue\<close> is valid.
\<close>

theorem post_hoc_p_value_unbounded:
  "validate L PostHocComparison (JObj [(''pValue'', JFloat p)]) = []"
  by (simp add: PostHocComparison_def validate_defs)

theorem post_hoc_p_value_unbounded_witness:
  "validate plain_lib PostHocComparison (JObj [(''pValue'', JFloat 1.5)]) = [] \<and>
   validate plain_lib PostHocComparison (JObj [(''pValue'', JFloat (- 1))]) = [] \<and>
   validate plain_lib StatisticalTest
     (JObj [(''method'', JStr ''t-test''), (''statistic'', JFloat 2), (''pValue'', JFloat 1.5)])
     \<noteq> []"
  using post_hoc_p_value_unbounded [of plain_lib "1.5"]
    post_hoc_p_value_unbounded [of plain_lib "- 1"]
    statistical_test_p_value_bounds [of plain_lib 2 "1.5"]
  by simp

section \<open>Lists and their minimum length\<close>

lemma validate_VectorData_values:
  "validate L VectorData (JObj [(''values'', v), (''unit'', JObj [(''symbol'', JStr sy)])])
   = at_loc (Key ''values'') (validate L (TList (TFloat []) (Some 1) None) v)"
  by (simp add: VectorData_def Unit_def validate_defs del: validate.simps(8))

text \<open>
  C3, as the models have it. \<^verbatim>\<open>VectorData.values\<close> declares \<^verbatim>\<open>min_length=1\<close>: with a
  unit, a list of numbers is valid exactly when it is not empty.
  \<^verbatim>\<open>AggregateStatistics.aggregates\<close> declares no minimum: with the other required fields
  valid, a document whose \<^verbatim>\<open>aggregates\<close> is the empty list is valid.
\<close>

theorem list_minimum_length:
  "(validate L VectorData
      (JObj [(''values'', JArr (map JFloat rs)), (''unit'', JObj [(''symbol'', JStr sy)])]) = []
    \<longleftrightarrow> rs \<noteq> []) \<and>
   (validate L AggregateStatistics
      (JObj [(''@context'', JStr ''https://rap-spec.evidencepub.io/v1/context''),
             (''@id'', JStr u), (''measure'', JStr m), (''aggregates'', JArr [])]) = []
    \<longleftrightarrow> http_url L u)"
proof -
  have 1: "validate L VectorData
      (JObj [(''values'', JArr (map JFloat rs)), (''unit'', JObj [(''symbol'', JStr sy)])]) = []
    \<longleftrightarrow> rs \<noteq> []"
    unfolding validate_VectorData_values at_loc_Nil validate_list
    by (auto simp: check_length_def check_bounds_def)
  have 2: "validate L AggregateStatistics
      (JObj [(''@context'', JStr ''https://rap-spec.evidencepub.io/v1/context''),
             (''@id'', JStr u), (''measure'', JStr m), (''aggregates'', JArr [])]) = []
    \<longleftrightarrow> http_url L u"
    unfolding AggregateStatistics_def
    by (simp add: validate_defs validate_list del: validate.simps(8))
  from 1 2 show ?thesis
    by (rule conjI)
qed

theorem list_minimum_length_witness:
  "validate plain_lib VectorData
     (JObj [(''values'', JArr (map JFloat [])), (''unit'', JObj [(''symbol'', JStr ''ms'')])])
     \<noteq> [] \<and>
   validate plain_lib VectorData
     (JObj [(''values'', JArr (map JFloat [1.0])), (''unit'', JObj [(''symbol'', JStr ''ms'')])])
     = [] \<and>
   validate plain_lib AggregateStatistics
     (JObj [(''@context'', JStr ''https://rap-spec.evidencepub.io/v1/context''),
            (''@id'', JStr ''https://example.org/aggregates/1''),
            (''measure'', JStr ''t1''), (''aggregates'', JArr [])]) = []"
proof -
  have u: "http_url plain_lib ''https://example.org/aggregates/1''"
    by (simp add: plain_lib_defs)
  show ?thesis
    using list_minimum_length [of plain_lib "[]" "''ms''" "''https://example.org/aggregates/1''" "''t1''"]
      list_minimum_length [of plain_lib "[1.0]" "''ms''" "''https://example.org/aggregates/1''" "''t1''"]
      u
    by simp
qed

theorem empty_aggregates_accepted:
  "validate plain_lib AggregateStatistics
     (JObj [(''@context'', JStr ''https://rap-spec.evidencepub.io/v1/context''),
            (''@id'', JStr ''https://example.org/aggregates/1''),
            (''measure'', JStr ''t1''), (''aggregates'', JArr [])]) = []"
  unfolding AggregateStatistics_def
  by (simp add: validate_defs validate_list plain_lib_defs del: validate.simps(8))

section \<open>Strings where a number is declared\<close>

text \<open>
  C4, as the validator runs. Validation is in the lax mode: where a float is declared, a
  string is handed to the library's conversion and the number it gives is checked like any
  other; only a string the conversion refuses is an error.
\<close>

theorem string_for_float_converted:
  "(validate L VectorData
      (JObj [(''values'', JArr [JStr s]), (''unit'', JObj [(''symbol'', JStr sy)])]) = []
    \<longleftrightarrow> str_as_float L s \<noteq> None) \<and>
   validate L ConfidenceInterval
      (JObj [(''level'', JStr s), (''lower'', JFloat lo), (''upper'', JFloat hi)])
    = (case str_as_float L s of
         None \<Rightarrow> [([Key ''level''], float_parsing)]
       | Some x \<Rightarrow>
           validate L ConfidenceInterval
             (JObj [(''level'', JFloat x), (''lower'', JFloat lo), (''upper'', JFloat hi)]))"
proof -
  have 1: "validate L VectorData
      (JObj [(''values'', JArr [JStr s]), (''unit'', JObj [(''symbol'', JStr sy)])]) = []
    \<longleftrightarrow> str_as_float L s \<noteq> None"
    unfolding validate_VectorData_values at_loc_Nil validate_list
    by (auto simp: check_length_def check_bounds_def split: option.splits)
  have 2: "validate L ConfidenceInterval
      (JObj [(''level'', JStr s), (''lower'', JFloat lo), (''upper'', JFloat hi)])
    = (case str_as_float L s of
         None \<Rightarrow> [([Key ''level''], float_parsing)]
       | Some x \<Rightarrow>
           validate L ConfidenceInterval
             (JObj [(''level'', JFloat x), (''lower'', JFloat lo), (''upper'', JFloat hi)]))"
    by (simp add: ConfidenceInterval_def validate_defs split: option.splits)
  from 1 2 show ?thesis
    by (rule conjI)
qed

lemma decimal_as_float_examples:
  "decimal_as_float ''1.0'' = Some 1"
  "decimal_as_float ''0.95'' = Some 0.95"
  "decimal_as_float ''1.1'' = Some 1.1"
  "decimal_as_float ''abc'' = None"
  by (simp_all add: decimal_as_float_def is_digit_def digits_value_def Let_def)

theorem string_for_float_converted_witness:
  "validate plain_lib VectorData
     (JObj [(''values'', JArr [JStr ''1.0'']), (''unit'', JObj [(''symbol'', JStr ''ms'')])]) = [] \<and>
   validate plain_lib VectorData
     (JObj [(''values'', JArr [JStr ''abc'']), (''unit'', JObj [(''symbol'', JStr ''ms'')])]) \<noteq> [] \<and>
   validate plain_lib ConfidenceInterval
     (JObj [(''level'', JStr ''0.95''), (''lower'', JFloat 2), (''upper'', JFloat 3)]) = [] \<and>
   validate plain_lib ConfidenceInterval
     (JObj [(''level'', JStr ''1.1''), (''lower'', JFloat 2), (''upper'', JFloat 3)]) \<noteq> []"
  using string_for_float_converted [of plain_lib "''1.0''" "''ms''" 2 3]
    string_for_float_converted [of plain_lib "''abc''" "''ms''" 2 3]
    string_for_float_converted [of plain_lib "''0.95''" "''ms''" 2 3]
    string_for_float_converted [of plain_lib "''1.1''" "''ms''" 2 3]
    validate_ConfidenceInterval_level [of plain_lib "0.95" 2 3]
    validate_ConfidenceInterval_level [of plain_lib "1.1" 2 3]
  by (simp add: plain_lib_def decimal_as_float_examples)

theorem numeric_string_accepted:
  "validate plain_lib VectorData
     (JObj [(''values'', JArr [JStr ''1.0'']), (''unit'', JObj [(''symbol'', JStr ''ms'')])]) = []"
  unfolding validate_VectorData_values at_loc_Nil validate_list
  by (simp add: check_length_def check_bounds_def plain_lib_def decimal_as_float_examples)

section \<open>Unknown top-level fields\<close>

lemma ResearchProduct_known_keys:
  "known_keys (class_config ResearchProduct) (class_fields ResearchProduct) =
     [''@context'', ''context'', ''@type'', ''type_'', ''@id'', ''id_'', ''identifier'',
      ''productType'', ''product_type'', ''processingLevel'', ''processing_level'', ''data'',
      ''participant'', ''measurement'', ''provenance'', ''computeEnvironment'',
      ''compute_environment'', ''license'', ''distribution'', ''citation'', ''qualityMetrics'',
      ''quality_metrics'']"
  by (simp add: ResearchProduct_def known_keys_def field_keys_def)

lemma Participant_known_keys:
  "known_keys (class_config Participant) (class_fields Participant) =
     [''@context'', ''context'', ''@type'', ''type_'', ''@id'', ''id_'', ''identifier'',
      ''demographicData'', ''demographic_data'', ''enrollmentDate'', ''enrollment_date'',
      ''status'', ''exclusionReason'', ''exclusion_reason'', ''clinicalData'', ''clinical_data'',
      ''productsAvailable'', ''products_available'', ''sessionMetadata'', ''session_metadata'',
      ''links'', ''consent'', ''privacyLevel'', ''privacy_level'']"
  by (simp add: Participant_def known_keys_def field_keys_def)

lemma entity_class_facts:
  "class_name ResearchProduct \<noteq> []" "extra (class_config ResearchProduct) \<noteq> Extra_forbid"
  "class_name Participant \<noteq> []" "extra (class_config Participant) \<noteq> Extra_forbid"
  by (simp_all add: ResearchProduct_def Participant_def)

lemma minimal_product_valid: "validate plain_lib ResearchProduct (JObj minimal_product) = []"
  by (simp add: minimal_product_def ResearchProduct_def ParticipantReference_def
        TimeseriesMeasurement_def RelaxometryMRIMeasurement_def BaseMeasurement_def inherit_def
        validate_defs plain_lib_defs del: validate.simps(8))

lemma minimal_participant_valid: "validate plain_lib Participant (JObj minimal_participant) = []"
  by (simp add: minimal_participant_def Participant_def validate_defs plain_lib_defs
        del: validate.simps(8))

lemma validate_research_product_iff:
  "validate_research_product L (Inr data) \<longleftrightarrow> validate L ResearchProduct data = []"
  by (simp add: validate_research_product_def model_validate_def split: list.splits)

text \<open>
  C2, as the validator runs. No model sets \<^verbatim>\<open>extra\<close>, so a top-level key that is neither
  the alias nor the name of a field is ignored: with it or without it, a document has the
  same errors as a ResearchProduct, and the same as a Participant. A valid ResearchProduct
  document with an extra unrecognised field is therefore valid, as a Participant one is.
\<close>

theorem unknown_top_level_field_ignored:
  "(k \<notin> set (known_keys (class_config ResearchProduct) (class_fields ResearchProduct)) \<longrightarrow>
      validate L ResearchProduct (JObj (dict_set d k v)) = validate L ResearchProduct (JObj d) \<and>
      validate_research_product L (Inr (JObj (dict_set d k v)))
        = validate_research_product L (Inr (JObj d))) \<and>
   (k \<notin> set (known_keys (class_config Participant) (class_fields Participant)) \<longrightarrow>
      validate L Participant (JObj (dict_set d k v)) = validate L Participant (JObj d))"
proof (intro conjI impI)
  assume k: "k \<notin> set (known_keys (class_config ResearchProduct) (class_fields ResearchProduct))"
  show e: "validate L ResearchProduct (JObj (dict_set d k v)) = validate L ResearchProduct (JObj d)"
    by (rule unknown_key_ignored [OF entity_class_facts(1) entity_class_facts(2) k])
  show "validate_research_product L (Inr (JObj (dict_set d k v)))
        = validate_research_product L (Inr (JObj d))"
    by (simp only: validate_research_product_iff e)
next
  assume k: "k \<notin> set (known_keys (class_config Participant) (class_fields Participant))"
  show "validate L Participant (JObj (dict_set d k v)) = validate L Participant (JObj d)"
    by (rule unknown_key_ignored [OF entity_class_facts(3) entity_class_facts(4) k])
qed

theorem unknown_top_level_field_ignored_witness:
  "''extraField'' \<notin> set (known_keys (class_config ResearchProduct) (class_fields ResearchProduct)) \<and>
   ''extraField'' \<notin> set (known_keys (class_config Participant) (class_fields Participant)) \<and>
   validate plain_lib ResearchProduct (JObj (dict_set minimal_product ''extraField'' (JStr ''x''))) = [] \<and>
   validate_research_product plain_lib
     (Inr (JObj (dict_set minimal_product ''extraField'' (JStr ''x'')))) \<and>
   validate plain_lib Participant (JObj (dict_set minimal_participant ''extraField'' (JStr ''x''))) = []"
proof -
  have 1: "''extraField'' \<notin> set (known_keys (class_config ResearchProduct) (class_fields ResearchProduct))"
    by (simp add: ResearchProduct_known_keys)
  have 2: "''extraField'' \<notin> set (known_keys (class_config Participant) (class_fields Participant))"
    by (simp add: Participant_known_keys)
  show ?thesis
    using 1 2
      unknown_top_level_field_ignored [of "''extraField''" plain_lib minimal_product "JStr ''x''"]
      unknown_top_level_field_ignored [of "''extraField''" plain_lib minimal_participant "JStr ''x''"]
      minimal_product_valid minimal_participant_valid
    by (simp add: validate_research_product_iff)
qed

theorem unknown_field_accepted:
  "validate_research_product plain_lib
     (Inr (JObj (dict_set minimal_product ''extraField'' (JStr ''x''))))"
proof -
  have "''extraField'' \<notin> set (known_keys (class_config ResearchProduct) (class_fields ResearchProduct))"
    by (simp add: ResearchProduct_known_keys)
  from unknown_key_ignored [OF entity_class_facts(1) entity_class_facts(2) this]
  show ?thesis
    by (simp add: validate_research_product_iff minimal_product_valid)
qed

section \<open>Aliases and names\<close>

lemmas measurement_defs = BaseMeasurement_def TimeseriesMeasurement_def
  RelaxometryMRIMeasurement_def inherit_def

lemma alias_or_name_class:
  assumes "class_name c \<noteq> []" and "populate_by_name (class_config c)"
    and "extra (class_config c) \<noteq> Extra_forbid"
    and "Field_decl n (Some a) dflt t \<in> set (class_fields c)"
    and "\<forall>g \<in> set (class_fields c). g = Field_decl n (Some a) dflt t \<or>
           (a \<notin> set (field_keys (class_config c) g) \<and> n \<notin> set (field_keys (class_config c) g))"
    and "dict_get d a = None"
  shows "validate L c (JObj (dict_set d n v)) = [] \<longleftrightarrow> validate L c (JObj (dict_set d a v)) = []"
  using alias_or_name [OF assms(2) assms(3) refl assms(4) assms(5) assms(6)]
    model_unfold [OF assms(1)]
  by metis

lemma specific_measure_BaseMeasurement:
  assumes "dict_get d ''specificMeasure'' = None"
  shows "validate L BaseMeasurement (JObj (dict_set d ''specific_measure'' v)) = [] \<longleftrightarrow>
         validate L BaseMeasurement (JObj (dict_set d ''specificMeasure'' v)) = []"
  by (rule alias_or_name_class [where dflt = Required and t = "TStr None", OF _ _ _ _ _ assms])
     (simp_all add: measurement_defs field_keys_def)

lemma specific_measure_TimeseriesMeasurement:
  assumes "dict_get d ''specificMeasure'' = None"
  shows "validate L TimeseriesMeasurement (JObj (dict_set d ''specific_measure'' v)) = [] \<longleftrightarrow>
         validate L TimeseriesMeasurement (JObj (dict_set d ''specificMeasure'' v)) = []"
  by (rule alias_or_name_class [where dflt = Required and t = "TStr None", OF _ _ _ _ _ assms])
     (simp_all add: measurement_defs field_keys_def)

lemma specific_measure_RelaxometryMRIMeasurement:
  assumes "dict_get d ''specificMeasure'' = None"
  shows "validate L RelaxometryMRIMeasurement (JObj (dict_set d ''specific_measure'' v)) = [] \<longleftrightarrow>
         validate L RelaxometryMRIMeasurement (JObj (dict_set d ''specificMeasure'' v)) = []"
  by (rule alias_or_name_class [where dflt = Required and t = "TStr None", OF _ _ _ _ _ assms])
     (simp_all add: measurement_defs field_keys_def)

lemma timeseries_eeg_valid:
  "validate plain_lib TimeseriesMeasurement
     (JObj [(''measurementType'', JStr ''timeseries''), (''specificMeasure'', JStr ''eeg'')]) = []"
  by (simp add: measurement_defs validate_defs del: validate.simps(8))

lemma eeg_timeseries_valid:
  "validate plain_lib TimeseriesMeasurement
     (JObj (dict_set [(''specificMeasure'', JStr ''eeg'')] ''measurementType''
        (JStr ''timeseries''))) = []"
  by (simp add: measurement_defs validate_defs del: validate.simps(8))

lemma relaxometry_t1_valid:
  "validate plain_lib RelaxometryMRIMeasurement
     (JObj [(''measurementType'', JStr ''relaxometry_mri''),
            (''specificMeasure'', JStr ''t1_relaxation_time'')]) = []"
  by (simp add: measurement_defs validate_defs del: validate.simps(8))

text \<open>
  C5, as the models are configured. Every model sets \<^verbatim>\<open>populate_by_name=True\<close>: a
  measurement document that gives the value under the internal name
  \<^verbatim>\<open>specific_measure\<close> is valid exactly when the document that gives it under the alias
  \<^verbatim>\<open>specificMeasure\<close> is, for the base measurement and for both of its variants.
\<close>

theorem internal_name_accepted:
  assumes "dict_get d ''specificMeasure'' = None"
  shows "(validate L BaseMeasurement (JObj (dict_set d ''specific_measure'' v)) = [] \<longleftrightarrow>
          validate L BaseMeasurement (JObj (dict_set d ''specificMeasure'' v)) = []) \<and>
         (validate L TimeseriesMeasurement (JObj (dict_set d ''specific_measure'' v)) = [] \<longleftrightarrow>
          validate L TimeseriesMeasurement (JObj (dict_set d ''specificMeasure'' v)) = []) \<and>
         (validate L RelaxometryMRIMeasurement (JObj (dict_set d ''specific_measure'' v)) = [] \<longleftrightarrow>
          validate L RelaxometryMRIMeasurement (JObj (dict_set d ''specificMeasure'' v)) = [])"
  using specific_measure_BaseMeasurement [OF assms]
    specific_measure_TimeseriesMeasurement [OF assms]
    specific_measure_RelaxometryMRIMeasurement [OF assms]
  by (intro conjI)

theorem internal_name_accepted_witness:
  "dict_get [(''measurementType'', JStr ''timeseries'')] ''specificMeasure'' = None \<and>
   validate plain_lib TimeseriesMeasurement
     (JObj (dict_set [(''measurementType'', JStr ''timeseries'')] ''specificMeasure'' (JStr ''eeg'')))
     = [] \<and>
   validate plain_lib TimeseriesMeasurement
     (JObj (dict_set [(''measurementType'', JStr ''timeseries'')] ''specific_measure'' (JStr ''eeg'')))
     = []"
proof -
  have h: "dict_get [(''measurementType'', JStr ''timeseries'')] ''specificMeasure'' = None"
    by (simp add: dict_get_def)
  have a: "validate plain_lib TimeseriesMeasurement
     (JObj (dict_set [(''measurementType'', JStr ''timeseries'')] ''specificMeasure'' (JStr ''eeg'')))
     = []"
    using timeseries_eeg_valid by simp
  from internal_name_accepted [OF h, of plain_lib "JStr ''eeg''"] a h
  show ?thesis
    by blast
qed

theorem internal_name_document_accepted:
  "validate_research_product plain_lib
     (Inr (JObj (dict_set minimal_product ''measurement''
        (JObj [(''measurementType'', JStr ''timeseries''), (''specific_measure'', JStr ''eeg'')]))))"
  unfolding validate_research_product_iff
  by (simp add: minimal_product_def ResearchProduct_def ParticipantReference_def
        measurement_defs validate_defs plain_lib_defs del: validate.simps(8))

section \<open>The measurement of a product\<close>

lemma measurement_type_fields:
  "Field_decl ''measurement_type'' (Some ''measurementType'') (Default (JStr ''relaxometry_mri''))
     (TLiteral [''relaxometry_mri'']) \<in> set (class_fields RelaxometryMRIMeasurement)"
  "Field_decl ''measurement_type'' (Some ''measurementType'') (Default (JStr ''timeseries''))
     (TLiteral [''timeseries'']) \<in> set (class_fields TimeseriesMeasurement)"
  by (simp_all add: measurement_defs)

lemma measurement_field:
  "Field_decl ''measurement'' None Required
     (TUnion [RelaxometryMRIMeasurement, TimeseriesMeasurement]) \<in> set (class_fields ResearchProduct)"
  unfolding ResearchProduct_def by simp

text \<open>A model with a literal field rejects a document that has another value for it.\<close>

lemma literal_field_mismatch:
  assumes "Field_decl n (Some a) dflt (TLiteral [lit]) \<in> set (class_fields c)"
    and "class_name c \<noteq> []"
    and "dict_get d a = Some v" and "v \<noteq> JStr lit"
  shows "validate L c (JObj d) \<noteq> []"
proof -
  have "validate_field L (class_config c) (Field_decl n (Some a) dflt (TLiteral [lit])) d \<noteq> []"
    using assms(3,4) by (cases v) (simp_all add: at_loc_def)
  from validate_model_field_error [OF assms(1) this] model_unfold [OF assms(2)]
  show ?thesis
    by metis
qed

lemma names:
  "class_name RelaxometryMRIMeasurement \<noteq> []" "class_name TimeseriesMeasurement \<noteq> []"
  "class_name ResearchProduct \<noteq> []"
  by (simp_all add: measurement_defs ResearchProduct_def)

text \<open>
  A literal field with a default: a document that has the field under neither key is valid
  exactly when the document with the literal filled in is.
\<close>

lemma default_literal_field:
  assumes ex: "extra cfg \<noteq> Extra_forbid"
    and f: "f = Field_decl n (Some a) (Default dv) (TLiteral [lit])" and mem: "f \<in> set fs"
    and others: "\<forall>g \<in> set fs. g = f \<or> a \<notin> set (field_keys cfg g)"
    and absent: "dict_get d a = None" "dict_get d n = None"
  shows "validate L (TModel nm cfg fs) (JObj (dict_set d a (JStr lit))) = [] \<longleftrightarrow>
         validate L (TModel nm cfg fs) (JObj d) = []"
proof -
  have same: "validate_field L cfg g (dict_set d a (JStr lit)) = validate_field L cfg g d"
    if "g \<in> set fs" "g \<noteq> f" for g
  proof (rule validate_field_cong, rule ballI)
    fix k assume "k \<in> set (field_keys cfg g)"
    with others that have "k \<noteq> a"
      by auto
    then show "dict_get (dict_set d a (JStr lit)) k = dict_get d k"
      by (simp add: dict_get_set)
  qed
  have own1: "validate_field L cfg f (dict_set d a (JStr lit)) = []"
    by (simp add: f dict_get_set at_loc_def)
  have own2: "validate_field L cfg f d = []"
    using absent by (simp add: f)
  show ?thesis
    unfolding validate_model_Nil [OF ex]
    using same own1 own2 by metis
qed

lemma default_literal_field_class:
  assumes "class_name c \<noteq> []" and "extra (class_config c) \<noteq> Extra_forbid"
    and "Field_decl n (Some a) (Default dv) (TLiteral [lit]) \<in> set (class_fields c)"
    and "\<forall>g \<in> set (class_fields c). g = Field_decl n (Some a) (Default dv) (TLiteral [lit]) \<or>
           a \<notin> set (field_keys (class_config c) g)"
    and "dict_get d a = None" and "dict_get d n = None"
  shows "validate L c (JObj (dict_set d a (JStr lit))) = [] \<longleftrightarrow> validate L c (JObj d) = []"
  using default_literal_field [OF assms(2) refl assms(3) assms(4) assms(5) assms(6)]
    model_unfold [OF assms(1)]
  by metis

lemma tagless_TimeseriesMeasurement:
  assumes "dict_get m ''measurementType'' = None" and "dict_get m ''measurement_type'' = None"
  shows "validate L TimeseriesMeasurement (JObj (dict_set m ''measurementType'' (JStr ''timeseries''))) = []
         \<longleftrightarrow> validate L TimeseriesMeasurement (JObj m) = []"
  by (rule default_literal_field_class [where dv = "JStr ''timeseries''", OF _ _ _ _ assms])
     (simp_all add: measurement_defs field_keys_def)

lemma tagless_RelaxometryMRIMeasurement:
  assumes "dict_get m ''measurementType'' = None" and "dict_get m ''measurement_type'' = None"
  shows "validate L RelaxometryMRIMeasurement
           (JObj (dict_set m ''measurementType'' (JStr ''relaxometry_mri''))) = []
         \<longleftrightarrow> validate L RelaxometryMRIMeasurement (JObj m) = []"
  by (rule default_literal_field_class [where dv = "JStr ''relaxometry_mri''", OF _ _ _ _ assms])
     (simp_all add: measurement_defs field_keys_def)

text \<open>
  C6, as the union is declared. The measurement of a ResearchProduct is the plain union of
  the two variants, each of which has its own tag as the default of \<^verbatim>\<open>measurementType\<close>.
  A measurement whose \<^verbatim>\<open>measurementType\<close> is \<^verbatim>\<open>timeseries\<close> is rejected by the MRI variant
  and is valid exactly when the timeseries variant accepts it; one whose type is
  \<^verbatim>\<open>relaxometry_mri\<close> is rejected by the timeseries variant and is valid exactly when the
  MRI variant accepts it; with any other value both variants reject it, and a
  ResearchProduct document that has it for measurement is rejected. A measurement that has
  no \<^verbatim>\<open>measurementType\<close>, under the alias or under the name, is not rejected for that: it is
  valid exactly when it is valid as one of the variants with that variant's tag filled in.
\<close>

theorem measurement_resolved_by_discriminator:
  "Field_decl ''measurement'' None Required
     (TUnion [RelaxometryMRIMeasurement, TimeseriesMeasurement]) \<in> set (class_fields ResearchProduct) \<and>
   (dict_get m ''measurementType'' = Some (JStr ''timeseries'') \<longrightarrow>
      validate L RelaxometryMRIMeasurement (JObj m) \<noteq> [] \<and>
      (validate L (TUnion [RelaxometryMRIMeasurement, TimeseriesMeasurement]) (JObj m) = []
       \<longleftrightarrow> validate L TimeseriesMeasurement (JObj m) = [])) \<and>
   (dict_get m ''measurementType'' = Some (JStr ''relaxometry_mri'') \<longrightarrow>
      validate L TimeseriesMeasurement (JObj m) \<noteq> [] \<and>
      (validate L (TUnion [RelaxometryMRIMeasurement, TimeseriesMeasurement]) (JObj m) = []
       \<longleftrightarrow> validate L RelaxometryMRIMeasurement (JObj m) = [])) \<and>
   (dict_get m ''measurementType'' = Some v \<and> v \<noteq> JStr ''timeseries'' \<and>
    v \<noteq> JStr ''relaxometry_mri'' \<and> dict_get d ''measurement'' = Some (JObj m) \<longrightarrow>
      validate L (TUnion [RelaxometryMRIMeasurement, TimeseriesMeasurement]) (JObj m) \<noteq> [] \<and>
      validate L ResearchProduct (JObj d) \<noteq> []) \<and>
   (dict_get m ''measurementType'' = None \<and> dict_get m ''measurement_type'' = None \<longrightarrow>
      (validate L (TUnion [RelaxometryMRIMeasurement, TimeseriesMeasurement]) (JObj m) = []
       \<longleftrightarrow> validate L RelaxometryMRIMeasurement
             (JObj (dict_set m ''measurementType'' (JStr ''relaxometry_mri''))) = [] \<or>
           validate L TimeseriesMeasurement
             (JObj (dict_set m ''measurementType'' (JStr ''timeseries''))) = []))"
proof (intro conjI impI)
  show "Field_decl ''measurement'' None Required
     (TUnion [RelaxometryMRIMeasurement, TimeseriesMeasurement]) \<in> set (class_fields ResearchProduct)"
    by (rule measurement_field)
next
  assume a: "dict_get m ''measurementType'' = Some (JStr ''timeseries'')"
  show r: "validate L RelaxometryMRIMeasurement (JObj m) \<noteq> []"
    by (rule literal_field_mismatch [OF measurement_type_fields(1) names(1) a]) simp
  show "validate L (TUnion [RelaxometryMRIMeasurement, TimeseriesMeasurement]) (JObj m) = []
       \<longleftrightarrow> validate L TimeseriesMeasurement (JObj m) = []"
    using r by (simp only: validate_union2) simp
next
  assume a: "dict_get m ''measurementType'' = Some (JStr ''relaxometry_mri'')"
  show r: "validate L TimeseriesMeasurement (JObj m) \<noteq> []"
    by (rule literal_field_mismatch [OF measurement_type_fields(2) names(2) a]) simp
  show "validate L (TUnion [RelaxometryMRIMeasurement, TimeseriesMeasurement]) (JObj m) = []
       \<longleftrightarrow> validate L RelaxometryMRIMeasurement (JObj m) = []"
    using r by (simp only: validate_union2) simp
next
  assume a: "dict_get m ''measurementType'' = Some v \<and> v \<noteq> JStr ''timeseries'' \<and>
    v \<noteq> JStr ''relaxometry_mri'' \<and> dict_get d ''measurement'' = Some (JObj m)"
  from a have av: "dict_get m ''measurementType'' = Some v"
    and n1: "v \<noteq> JStr ''timeseries''" and n2: "v \<noteq> JStr ''relaxometry_mri''"
    and dm: "dict_get d ''measurement'' = Some (JObj m)"
    by simp_all
  have 1: "validate L RelaxometryMRIMeasurement (JObj m) \<noteq> []"
    by (rule literal_field_mismatch [OF measurement_type_fields(1) names(1) av n2])
  have 2: "validate L TimeseriesMeasurement (JObj m) \<noteq> []"
    by (rule literal_field_mismatch [OF measurement_type_fields(2) names(2) av n1])
  show u: "validate L (TUnion [RelaxometryMRIMeasurement, TimeseriesMeasurement]) (JObj m) \<noteq> []"
    using 1 2 by (simp only: validate_union2) simp
  have "validate_field L (class_config ResearchProduct)
          (Field_decl ''measurement'' None Required
             (TUnion [RelaxometryMRIMeasurement, TimeseriesMeasurement])) d \<noteq> []"
    using dm u by (simp add: dict_get_def [symmetric] at_loc_Nil del: validate.simps)
  from validate_model_field_error [OF measurement_field this] model_unfold [OF names(3)]
  show "validate L ResearchProduct (JObj d) \<noteq> []"
    by metis
next
  assume a: "dict_get m ''measurementType'' = None \<and> dict_get m ''measurement_type'' = None"
  then have n1: "dict_get m ''measurementType'' = None"
    and n2: "dict_get m ''measurement_type'' = None"
    by simp_all
  show "validate L (TUnion [RelaxometryMRIMeasurement, TimeseriesMeasurement]) (JObj m) = []
       \<longleftrightarrow> validate L RelaxometryMRIMeasurement
             (JObj (dict_set m ''measurementType'' (JStr ''relaxometry_mri''))) = [] \<or>
           validate L TimeseriesMeasurement
             (JObj (dict_set m ''measurementType'' (JStr ''timeseries''))) = []"
    by (simp only: validate_union2 tagless_RelaxometryMRIMeasurement [OF n1 n2]
          tagless_TimeseriesMeasurement [OF n1 n2])
qed

theorem measurement_resolved_by_discriminator_witness:
  "validate plain_lib (TUnion [RelaxometryMRIMeasurement, TimeseriesMeasurement])
     (JObj [(''measurementType'', JStr ''timeseries''), (''specificMeasure'', JStr ''eeg'')]) = [] \<and>
   validate plain_lib RelaxometryMRIMeasurement
     (JObj [(''measurementType'', JStr ''timeseries''), (''specificMeasure'', JStr ''eeg'')]) \<noteq> [] \<and>
   validate plain_lib (TUnion [RelaxometryMRIMeasurement, TimeseriesMeasurement])
     (JObj [(''measurementType'', JStr ''relaxometry_mri''),
            (''specificMeasure'', JStr ''t1_relaxation_time'')]) = [] \<and>
   validate plain_lib TimeseriesMeasurement
     (JObj [(''measurementType'', JStr ''relaxometry_mri''),
            (''specificMeasure'', JStr ''t1_relaxation_time'')]) \<noteq> [] \<and>
   validate plain_lib ResearchProduct
     (JObj (dict_set minimal_product ''measurement''
        (JObj [(''measurementType'', JStr ''spectroscopy''), (''specificMeasure'', JStr ''eeg'')])))
     \<noteq> [] \<and>
   validate plain_lib (TUnion [RelaxometryMRIMeasurement, TimeseriesMeasurement])
     (JObj [(''specificMeasure'', JStr ''eeg'')]) = []"
proof -
  let ?ts = "[(''measurementType'', JStr ''timeseries''), (''specificMeasure'', JStr ''eeg'')]"
  let ?mri = "[(''measurementType'', JStr ''relaxometry_mri''),
               (''specificMeasure'', JStr ''t1_relaxation_time'')]"
  let ?other = "[(''measurementType'', JStr ''spectroscopy''), (''specificMeasure'', JStr ''eeg'')]"
  have 1: "dict_get ?ts ''measurementType'' = Some (JStr ''timeseries'')"
    by (simp add: dict_get_def)
  have 2: "dict_get ?mri ''measurementType'' = Some (JStr ''relaxometry_mri'')"
    by (simp add: dict_get_def)
  have 3: "dict_get ?other ''measurementType'' = Some (JStr ''spectroscopy'') \<and>
           JStr ''spectroscopy'' \<noteq> JStr ''timeseries'' \<and>
           JStr ''spectroscopy'' \<noteq> JStr ''relaxometry_mri'' \<and>
           dict_get (dict_set minimal_product ''measurement'' (JObj ?other)) ''measurement''
             = Some (JObj ?other)"
    by (simp add: dict_get_set) (simp add: dict_get_def)
  note t1 = measurement_resolved_by_discriminator [of ?ts plain_lib]
  note t2 = measurement_resolved_by_discriminator [of ?mri plain_lib]
  note t3 = measurement_resolved_by_discriminator [of ?other plain_lib "JStr ''spectroscopy''"
      "dict_set minimal_product ''measurement'' (JObj ?other)"]
  note t4 = measurement_resolved_by_discriminator [of "[(''specificMeasure'', JStr ''eeg'')]" plain_lib]
  have 4: "dict_get [(''specificMeasure'', JStr ''eeg'')] ''measurementType'' = None \<and>
           dict_get [(''specificMeasure'', JStr ''eeg'')] ''measurement_type'' = None"
    by (simp add: dict_get_def)
  have e: "validate plain_lib (TUnion [RelaxometryMRIMeasurement, TimeseriesMeasurement])
             (JObj [(''specificMeasure'', JStr ''eeg'')]) = []
       \<longleftrightarrow> validate plain_lib RelaxometryMRIMeasurement
             (JObj (dict_set [(''specificMeasure'', JStr ''eeg'')] ''measurementType''
                (JStr ''relaxometry_mri''))) = [] \<or>
           validate plain_lib TimeseriesMeasurement
             (JObj (dict_set [(''specificMeasure'', JStr ''eeg'')] ''measurementType''
                (JStr ''timeseries''))) = []"
    by (rule mp [OF conjunct2 [OF conjunct2 [OF conjunct2 [OF conjunct2 [OF t4]]]] 4])
  have d1: "validate plain_lib (TUnion [RelaxometryMRIMeasurement, TimeseriesMeasurement])
             (JObj [(''specificMeasure'', JStr ''eeg'')]) = []"
    unfolding e by (rule disjI2) (rule eeg_timeseries_valid)
  have a: "validate plain_lib RelaxometryMRIMeasurement (JObj ?ts) \<noteq> [] \<and>
      (validate plain_lib (TUnion [RelaxometryMRIMeasurement, TimeseriesMeasurement]) (JObj ?ts) = []
       \<longleftrightarrow> validate plain_lib TimeseriesMeasurement (JObj ?ts) = [])"
    by (rule mp [OF conjunct1 [OF conjunct2 [OF t1]] 1])
  have b: "validate plain_lib TimeseriesMeasurement (JObj ?mri) \<noteq> [] \<and>
      (validate plain_lib (TUnion [RelaxometryMRIMeasurement, TimeseriesMeasurement]) (JObj ?mri) = []
       \<longleftrightarrow> validate plain_lib RelaxometryMRIMeasurement (JObj ?mri) = [])"
    by (rule mp [OF conjunct1 [OF conjunct2 [OF conjunct2 [OF t2]]] 2])
  have c: "validate plain_lib (TUnion [RelaxometryMRIMeasurement, TimeseriesMeasurement])
             (JObj ?other) \<noteq> [] \<and>
           validate plain_lib ResearchProduct
             (JObj (dict_set minimal_product ''measurement'' (JObj ?other))) \<noteq> []"
    by (rule mp [OF conjunct1 [OF conjunct2 [OF conjunct2 [OF conjunct2 [OF t3]]]] 3])
  from a timeseries_eeg_valid
  have a1: "validate plain_lib (TUnion [RelaxometryMRIMeasurement, TimeseriesMeasurement])
              (JObj ?ts) = []"
    and a2: "validate plain_lib RelaxometryMRIMeasurement (JObj ?ts) \<noteq> []"
    by (simp_all del: validate.simps)
  from b relaxometry_t1_valid
  have b1: "validate plain_lib (TUnion [RelaxometryMRIMeasurement, TimeseriesMeasurement])
              (JObj ?mri) = []"
    and b2: "validate plain_lib TimeseriesMeasurement (JObj ?mri) \<noteq> []"
    by (simp_all del: validate.simps)
  from a1 a2 b1 b2 conjunct2 [OF c] d1 show ?thesis
    by (intro conjI)
qed

theorem tagless_measurement_accepted:
  "validate_research_product plain_lib
     (Inr (JObj (dict_set minimal_product ''measurement''
        (JObj [(''specificMeasure'', JStr ''eeg'')]))))"
  unfolding validate_research_product_iff
  by (simp add: minimal_product_def ResearchProduct_def ParticipantReference_def
        measurement_defs validate_defs plain_lib_defs del: validate.simps(8))

section \<open>The participant identifier\<close>

lemma identifier_class:
  "list_ex (in_class c)
     [CRange CHR ''A'' CHR ''Z'', CRange CHR ''a'' CHR ''z'', CRange CHR ''0'' CHR ''9'',
      CChar CHR ''_'', CChar CHR ''-'']
   \<longleftrightarrow> is_alnum c \<or> c = CHR ''_'' \<or> c = CHR ''-''"
  by (auto simp: is_alnum_def is_digit_def)

lemma identifier_pattern:
  "pattern_match
     (Anchored_plus [CRange CHR ''A'' CHR ''Z'', CRange CHR ''a'' CHR ''z'',
        CRange CHR ''0'' CHR ''9'', CChar CHR ''_'', CChar CHR ''-'']) s
   \<longleftrightarrow> s \<noteq> [] \<and> list_all (\<lambda>c. is_alnum c \<or> c = CHR ''_'' \<or> c = CHR ''-'') s"
  unfolding pattern_match.simps identifier_class by (rule refl)

lemma participant_identifier:
  "validate L Participant
     (JObj [(''@context'', JStr ''https://rap-spec.evidencepub.io/v1/context''),
            (''@id'', JStr u), (''identifier'', JStr s)]) = []
   \<longleftrightarrow> http_url L u \<and> s \<noteq> [] \<and> list_all (\<lambda>c. is_alnum c \<or> c = CHR ''_'' \<or> c = CHR ''-'') s"
  by (simp add: Participant_def validate_defs identifier_pattern
        del: validate.simps(8) pattern_match.simps)

lemma reference_identifier:
  "validate L ResearchProduct
     (JObj (dict_set minimal_product ''participant''
        (JObj [(''@id'', JStr u), (''identifier'', JStr s)]))) = []
   \<longleftrightarrow> http_url L ''https://example.org/products/1'' \<and> http_url L u"
  by (simp add: minimal_product_def ResearchProduct_def ParticipantReference_def
        BaseMeasurement_def TimeseriesMeasurement_def RelaxometryMRIMeasurement_def inherit_def
        validate_defs del: validate.simps(8))

text \<open>
  C10. The pattern of the identifier is on the Participant entity only. A ResearchProduct
  document whose participant reference has a URL for \<^verbatim>\<open>@id\<close> is valid whatever string the
  reference has for identifier; a Participant document is valid exactly when its identifier
  is a non-empty string of letters, digits, \<^verbatim>\<open>_\<close> and \<^verbatim>\<open>-\<close>.
\<close>

theorem identifier_pattern_on_participant_only:
  "(validate L ResearchProduct
      (JObj (dict_set minimal_product ''participant''
         (JObj [(''@id'', JStr u), (''identifier'', JStr s)]))) = []
    \<longleftrightarrow> http_url L ''https://example.org/products/1'' \<and> http_url L u) \<and>
   (validate L Participant
      (JObj [(''@context'', JStr ''https://rap-spec.evidencepub.io/v1/context''),
             (''@id'', JStr u), (''identifier'', JStr s)]) = []
    \<longleftrightarrow> http_url L u \<and> s \<noteq> [] \<and>
        list_all (\<lambda>c. is_alnum c \<or> c = CHR ''_'' \<or> c = CHR ''-'') s)"
  using reference_identifier [of L u s] participant_identifier [of L u s]
  by (rule conjI)

theorem identifier_pattern_on_participant_only_witness:
  "validate plain_lib ResearchProduct
     (JObj (dict_set minimal_product ''participant''
        (JObj [(''@id'', JStr ''https://example.org/participants/1''),
               (''identifier'', JStr ''sub 01!'')]))) = [] \<and>
   validate plain_lib Participant
     (JObj [(''@context'', JStr ''https://rap-spec.evidencepub.io/v1/context''),
            (''@id'', JStr ''https://example.org/participants/1''),
            (''identifier'', JStr ''sub 01!'')]) \<noteq> [] \<and>
   validate plain_lib Participant
     (JObj [(''@context'', JStr ''https://rap-spec.evidencepub.io/v1/context''),
            (''@id'', JStr ''https://example.org/participants/1''),
            (''identifier'', JStr ''sub-01'')]) = []"
proof -
  have u: "http_url plain_lib ''https://example.org/products/1''"
    "http_url plain_lib ''https://example.org/participants/1''"
    by (simp_all add: plain_lib_defs)
  have bad: "\<not> list_all (\<lambda>c. is_alnum c \<or> c = CHR ''_'' \<or> c = CHR ''-'') ''sub 01!''"
    by (simp add: is_alnum_def is_digit_def)
  have good: "list_all (\<lambda>c. is_alnum c \<or> c = CHR ''_'' \<or> c = CHR ''-'') ''sub-01''"
    by (simp add: is_alnum_def is_digit_def)
  show ?thesis
    using u bad good
      identifier_pattern_on_participant_only
        [of plain_lib "''https://example.org/participants/1''" "''sub 01!''"]
      identifier_pattern_on_participant_only
        [of plain_lib "''https://example.org/participants/1''" "''sub-01''"]
    by (simp del: validate.simps)
qed

end
